theory Spec2Isabelle
  imports Main "HOL-Library.Word"
begin

unbundle bit_operations_syntax

section \<open>Machine types\<close>

text \<open>
  The library is C++ for 64-bit Linux: \<open>size_t\<close> and \<open>uint64_t\<close> are 64-bit unsigned,
  \<open>uint32_t\<close> is 32-bit unsigned, \<open>int64_t\<close> is 64-bit two's complement (only stored and
  loaded by the code modelled here, so it is kept as its 64-bit pattern), and a payload is
  a sequence of bytes. A parameter the source calls \<open>size\<close> is written \<open>sz\<close> below.
\<close>

type_synonym u8 = "8 word"
type_synonym u32 = "32 word"
type_synonym u64 = "64 word"
type_synonym i64 = "64 word"
type_synonym size_t = "64 word"
type_synonym bytes = "u8 list"

section \<open>Platform probe: \<open>SIM::CacheInfo\<close> (cache_utils.hpp)\<close>

record CacheInfo =
  l1d_size :: size_t
  l1i_size :: size_t
  l2_size :: size_t
  l3_size :: size_t
  line_size :: size_t
  num_cores :: int

text \<open>\<open>return l2_size > 0 ? l2_size / 4 : 64 * 1024;\<close>\<close>

definition optimal_prefetch_distance :: "CacheInfo \<Rightarrow> size_t" where
  "optimal_prefetch_distance c = (if l2_size c > 0 then l2_size c div 4 else 64 * 1024)"

text \<open>\<open>return l3_size > 0 ? l3_size / 2 : 1024 * 1024;\<close>\<close>

definition optimal_chunk_size :: "CacheInfo \<Rightarrow> size_t" where
  "optimal_chunk_size c = (if l3_size c > 0 then l3_size c div 2 else 1024 * 1024)"

text \<open>The defaults of \<open>CacheUtils::detectCacheInfo\<close>, kept when sysfs cannot be read.\<close>

definition default_cache_info :: "int \<Rightarrow> CacheInfo" where
  "default_cache_info cores =
     \<lparr> l1d_size = 32 * 1024, l1i_size = 32 * 1024, l2_size = 256 * 1024,
       l3_size = 8 * 1024 * 1024, line_size = 64, num_cores = cores \<rparr>"

text \<open>\<open>CacheUtils::alignToCacheLine\<close>, \<open>alignToHugePage\<close> (cache_utils.cpp).\<close>

definition CACHE_LINE_SIZE :: size_t where
  "CACHE_LINE_SIZE = 64"

definition HUGE_PAGE_SIZE :: size_t where
  "HUGE_PAGE_SIZE = 2 * 1024 * 1024"

definition alignToCacheLine :: "size_t \<Rightarrow> size_t" where
  "alignToCacheLine sz = ((sz + CACHE_LINE_SIZE - 1) div CACHE_LINE_SIZE) * CACHE_LINE_SIZE"

definition alignToHugePage :: "size_t \<Rightarrow> size_t" where
  "alignToHugePage sz = ((sz + HUGE_PAGE_SIZE - 1) div HUGE_PAGE_SIZE) * HUGE_PAGE_SIZE"

section \<open>Payload copies\<close>

text \<open>
  \<open>std::memcpy(dst, src, n)\<close> (and \<open>ntMemcpy\<close>, which stores the same bytes with
  streaming stores): the first \<open>n\<close> bytes of the destination become the first \<open>n\<close>
  bytes of the source. The caller's contract is that both areas hold at least \<open>n\<close> bytes.
\<close>

definition memcpy :: "bytes \<Rightarrow> bytes \<Rightarrow> nat \<Rightarrow> bytes" where
  "memcpy dst src n = take n src @ drop n dst"

section \<open>Named shared-memory objects\<close>

text \<open>
  The POSIX calls the engines make, on an explicit store: \<open>shm_names\<close> binds a name to the
  object it currently denotes, \<open>shm_objs\<close> holds the contents of every object (an object
  stays there after its name is unlinked, since descriptors and mappings keep it alive),
  and \<open>shm_next\<close> is the identity the next created object gets. A descriptor or a mapping
  is modelled by the identity of its object.
\<close>

record 'r shm_world =
  shm_names :: "string \<rightharpoonup> nat"
  shm_objs :: "nat \<rightharpoonup> 'r"
  shm_next :: nat

text \<open>
  \<open>shm_unlink(name)\<close>: the name is removed; a name that is not bound stays unbound.
  The engines ignore the call's result, and the calling process is taken to have the
  right to unlink the name.
\<close>

definition shm_unlink :: "string \<Rightarrow> 'r shm_world \<Rightarrow> 'r shm_world" where
  "shm_unlink name W = W\<lparr>shm_names := (shm_names W)(name := None)\<rparr>"

text \<open>
  \<open>shm_open(name, O_CREAT | O_RDWR [| O_EXCL], 0666)\<close>. \<open>granted\<close> is false when the
  system refuses the call for a reason of its own (descriptor or memory exhaustion,
  permissions). With \<open>O_EXCL\<close> the call fails on a bound name; without it the bound
  object is opened. A new object is empty: \<open>fresh\<close> is the engine's all-zero region.
\<close>

definition shm_open_creat ::
  "bool \<Rightarrow> bool \<Rightarrow> 'r \<Rightarrow> string \<Rightarrow> 'r shm_world \<Rightarrow> nat option \<times> 'r shm_world" where
  "shm_open_creat excl granted fresh name W =
     (if \<not> granted then (None, W)
      else case shm_names W name of
        Some i \<Rightarrow> (if excl then (None, W) else (Some i, W))
      | None \<Rightarrow>
          (Some (shm_next W),
           W\<lparr>shm_names := (shm_names W)(name \<mapsto> shm_next W),
              shm_objs := (shm_objs W)(shm_next W \<mapsto> fresh),
              shm_next := Suc (shm_next W)\<rparr>))"

text \<open>\<open>shm_open(name, O_RDWR, 0666)\<close> and \<open>shm_open(name, O_RDONLY, 0666)\<close>.\<close>

definition shm_open_existing :: "bool \<Rightarrow> string \<Rightarrow> 'r shm_world \<Rightarrow> nat option" where
  "shm_open_existing granted name W = (if \<not> granted then None else shm_names W name)"

text \<open>The region a mapping (\<open>ptr_\<close>) refers to.\<close>

definition shm_at :: "'r shm_world \<Rightarrow> nat option \<Rightarrow> 'r option" where
  "shm_at W p = (case p of None \<Rightarrow> None | Some i \<Rightarrow> shm_objs W i)"

text \<open>
  What the system answers during one \<open>init\<close>: whether \<open>shm_open\<close>, \<open>ftruncate\<close>, the
  \<open>MAP_HUGETLB\<close> mapping and the ordinary mapping are granted.
\<close>

record os_env =
  env_open_ok :: bool
  env_ftruncate_ok :: bool
  env_mmap_huge_ok :: bool
  env_mmap_ok :: bool

section \<open>Double buffer, basic tier: namespace \<open>BARQ\<close> (barq.hpp, barq.cpp)\<close>

text \<open>
  The shared region: \<open>struct Header\<close> (five cache lines) followed by the two payload
  slots \<open>buffer_[0]\<close> and \<open>buffer_[1]\<close>.
\<close>

record barq_shm =
  bq_magic :: u32
  bq_version :: u32
  bq_capacity :: size_t
  bq_buffer_offset :: size_t
  bq_flags :: u32
  bq_front_idx :: u32
  bq_seq0 :: u64
  bq_ts0 :: i64
  bq_len0 :: size_t
  bq_seq1 :: u64
  bq_ts1 :: i64
  bq_len1 :: size_t
  bq_heartbeat_ns :: i64
  bq_total_writes :: u64
  bq_total_bytes :: u64
  bq_buffer0 :: bytes
  bq_buffer1 :: bytes

text \<open>
  The private members of \<open>BARQ::Writer\<close>. \<open>fd_\<close> and \<open>ptr_\<close> name the shared-memory
  object they refer to (\<open>None\<close> for \<open>-1\<close> and \<open>nullptr\<close>); \<open>header_\<close> and \<open>buffer_\<close>
  point into the mapping \<open>ptr_\<close>.
\<close>

record barq_Writer =
  bw_name :: string
  bw_max_size :: size_t
  bw_use_huge_pages :: bool
  bw_initialized :: bool
  bw_huge_pages_active :: bool
  bw_fd :: "nat option"
  bw_ptr :: "nat option"
  bw_shm_size :: size_t
  bw_frame_count :: u64

definition barq_MAGIC :: u32 where
  "barq_MAGIC = 0x53484D32"

definition barq_VERSION :: u32 where
  "barq_VERSION = 0x00020000"

definition barq_HUGE_PAGE :: size_t where
  "barq_HUGE_PAGE = 2 * 1024 * 1024"

definition barq_sizeof_Header :: size_t where
  "barq_sizeof_Header = 320"

text \<open>\<open>return (value + alignment - 1) & ~(alignment - 1);\<close>\<close>

definition alignUp :: "size_t \<Rightarrow> size_t \<Rightarrow> size_t" where
  "alignUp v alignment = (v + alignment - 1) AND NOT (alignment - 1)"

text \<open>\<open>Writer::Writer(name, max_size, use_huge_pages)\<close>\<close>

definition barq_Writer_ctor :: "string \<Rightarrow> size_t \<Rightarrow> bool \<Rightarrow> barq_Writer" where
  "barq_Writer_ctor name max_size use_huge_pages =
     \<lparr> bw_name = name, bw_max_size = max_size, bw_use_huge_pages = use_huge_pages,
       bw_initialized = False, bw_huge_pages_active = False, bw_fd = None, bw_ptr = None,
       bw_shm_size = 0, bw_frame_count = 0 \<rparr>"

text \<open>
  The metadata stores shared by \<open>Writer::write\<close> and \<open>Writer::commit\<close>:
  \<open>if (back == 0) { len0, ts0, seq0 } else { len1, ts1, seq1 }\<close>.
\<close>

definition barq_store_meta :: "u32 \<Rightarrow> size_t \<Rightarrow> i64 \<Rightarrow> u64 \<Rightarrow> barq_shm \<Rightarrow> barq_shm" where
  "barq_store_meta back sz now frame_count h =
     (if back = 0
      then h\<lparr>bq_len0 := sz, bq_ts0 := now, bq_seq0 := frame_count\<rparr>
      else h\<lparr>bq_len1 := sz, bq_ts1 := now, bq_seq1 := frame_count\<rparr>)"

text \<open>
  \<open>bool Writer::write(const void* data, size_t size)\<close>. \<open>now\<close> is the value \<open>nowNs()\<close>
  returns during the call. The result is the returned flag, the writer and the region.
  \<open>buffer_[back]\<close> is slot 0 for \<open>back == 0\<close> and slot 1 otherwise (\<open>front_idx\<close> is only
  ever 0 or 1: \<open>init\<close> stores 0 and every publish stores \<open>1 - front\<close>).
\<close>

definition barq_write ::
  "barq_Writer \<Rightarrow> barq_shm \<Rightarrow> bytes \<Rightarrow> size_t \<Rightarrow> i64 \<Rightarrow> bool \<times> barq_Writer \<times> barq_shm" where
  "barq_write w h data sz now =
     (if \<not> bw_initialized w \<or> sz > bw_max_size w then (False, w, h)
      else
        let front = bq_front_idx h;
            back = 1 - front;
            h1 = (if back = 0
                  then h\<lparr>bq_buffer0 := memcpy (bq_buffer0 h) data (unat sz)\<rparr>
                  else h\<lparr>bq_buffer1 := memcpy (bq_buffer1 h) data (unat sz)\<rparr>);
            w' = w\<lparr>bw_frame_count := bw_frame_count w + 1\<rparr>;
            h2 = barq_store_meta back sz now (bw_frame_count w') h1;
            h3 = h2\<lparr>bq_heartbeat_ns := now\<rparr>;
            h4 = h3\<lparr>bq_front_idx := back\<rparr>
        in (True, w', h4))"

text \<open>\<open>bool Writer::commit(size_t size)\<close>\<close>

definition barq_commit ::
  "barq_Writer \<Rightarrow> barq_shm \<Rightarrow> size_t \<Rightarrow> i64 \<Rightarrow> bool \<times> barq_Writer \<times> barq_shm" where
  "barq_commit w h sz now =
     (if \<not> bw_initialized w \<or> sz > bw_max_size w then (False, w, h)
      else
        let front = bq_front_idx h;
            back = 1 - front;
            w' = w\<lparr>bw_frame_count := bw_frame_count w + 1\<rparr>;
            h2 = barq_store_meta back sz now (bw_frame_count w') h;
            h3 = h2\<lparr>bq_heartbeat_ns := now\<rparr>;
            h4 = h3\<lparr>bq_total_writes := bq_total_writes h3 + 1\<rparr>;
            h5 = h4\<lparr>bq_total_bytes := bq_total_bytes h4 + sz\<rparr>;
            h6 = h5\<lparr>bq_front_idx := back\<rparr>
        in (True, w', h6))"

text \<open>
  The region as \<open>Writer::init\<close> leaves it: \<open>memset\<close> to zero, then the static fields,
  the relaxed stores of 0 and the heartbeat. The payload slots are the zero bytes of the
  freshly truncated object, \<open>buffer_size\<close> bytes each.
\<close>

definition barq_init_region :: "size_t \<Rightarrow> bool \<Rightarrow> size_t \<Rightarrow> i64 \<Rightarrow> barq_shm" where
  "barq_init_region max_size huge_pages_active buffer_size now =
     \<lparr> bq_magic = barq_MAGIC, bq_version = barq_VERSION, bq_capacity = max_size,
       bq_buffer_offset = barq_sizeof_Header,
       bq_flags = (if huge_pages_active then 1 else 0),
       bq_front_idx = 0, bq_seq0 = 0, bq_ts0 = 0, bq_len0 = 0,
       bq_seq1 = 0, bq_ts1 = 0, bq_len1 = 0,
       bq_heartbeat_ns = now, bq_total_writes = 0, bq_total_bytes = 0,
       bq_buffer0 = replicate (unat buffer_size) 0,
       bq_buffer1 = replicate (unat buffer_size) 0 \<rparr>"

text \<open>An object that has just been created: no bytes yet.\<close>

definition barq_empty :: barq_shm where
  "barq_empty =
     \<lparr> bq_magic = 0, bq_version = 0, bq_capacity = 0, bq_buffer_offset = 0, bq_flags = 0,
       bq_front_idx = 0, bq_seq0 = 0, bq_ts0 = 0, bq_len0 = 0,
       bq_seq1 = 0, bq_ts1 = 0, bq_len1 = 0,
       bq_heartbeat_ns = 0, bq_total_writes = 0, bq_total_bytes = 0,
       bq_buffer0 = [], bq_buffer1 = [] \<rparr>"

text \<open>
  \<open>bool Writer::init()\<close>: sizes, \<open>shm_unlink\<close>, exclusive create, \<open>ftruncate\<close>, the
  huge-page mapping with its fallback, the header. \<open>mlock\<close> and \<open>madvise\<close> change
  nothing a caller can observe. After a failed \<open>ftruncate\<close> or mapping the descriptor is
  closed and the name unlinked, and \<open>fd_\<close> keeps its value.
\<close>

definition barq_init ::
  "barq_Writer \<Rightarrow> os_env \<Rightarrow> i64 \<Rightarrow> barq_shm shm_world \<Rightarrow>
     bool \<times> barq_Writer \<times> barq_shm shm_world" where
  "barq_init w env now W =
     (if bw_initialized w then (True, w, W)
      else
        let buffer_size = alignUp (bw_max_size w) 64;
            shm_size0 = barq_sizeof_Header + buffer_size * 2;
            try_huge = (bw_use_huge_pages w \<and> shm_size0 \<ge> barq_HUGE_PAGE);
            shm_size = (if try_huge then alignUp shm_size0 barq_HUGE_PAGE else shm_size0);
            w1 = w\<lparr>bw_shm_size := shm_size\<rparr>;
            W1 = shm_unlink (bw_name w) W;
            (fd, W2) = shm_open_creat True (env_open_ok env) barq_empty (bw_name w) W1
        in case fd of
             None \<Rightarrow> (False, w1\<lparr>bw_fd := None\<rparr>, W2)
           | Some i \<Rightarrow>
               let w2 = w1\<lparr>bw_fd := Some i\<rparr>
               in if \<not> env_ftruncate_ok env then (False, w2, shm_unlink (bw_name w) W2)
                  else
                    let try_huge2 = (bw_use_huge_pages w \<and> shm_size \<ge> barq_HUGE_PAGE);
                        huge = (try_huge2 \<and> env_mmap_huge_ok env)
                    in if \<not> huge \<and> \<not> env_mmap_ok env
                       then (False, w2\<lparr>bw_ptr := None\<rparr>, shm_unlink (bw_name w) W2)
                       else
                         let w3 = w2\<lparr>bw_ptr := Some i, bw_huge_pages_active := huge\<rparr>;
                             W3 = W2\<lparr>shm_objs := (shm_objs W2)
                                    (i \<mapsto> barq_init_region (bw_max_size w) huge buffer_size now)\<rparr>
                         in (True, w3\<lparr>bw_initialized := True\<rparr>, W3))"

text \<open>
  The two ways to publish, as one step: \<open>write(data, size)\<close>, or \<open>commit(size)\<close> after
  the caller has filled the pointer \<open>getWriteBuffer()\<close> returned. Each carries the
  clock value of its call.
\<close>

datatype barq_op = BWrite bytes size_t i64 | BCommit size_t i64

fun barq_step :: "barq_Writer \<Rightarrow> barq_shm \<Rightarrow> barq_op \<Rightarrow> bool \<times> barq_Writer \<times> barq_shm" where
  "barq_step w h (BWrite data sz now) = barq_write w h data sz now"
| "barq_step w h (BCommit sz now) = barq_commit w h sz now"

fun barq_op_size :: "barq_op \<Rightarrow> size_t" where
  "barq_op_size (BWrite data sz now) = sz"
| "barq_op_size (BCommit sz now) = sz"

text \<open>
  The metadata of slot \<open>i\<close>, read as \<open>Reader::getLatest\<close> reads it
  (\<open>front == 0 ? seq0 : seq1\<close>, and so on).
\<close>

definition barq_slot_seq :: "barq_shm \<Rightarrow> u32 \<Rightarrow> u64" where
  "barq_slot_seq h i = (if i = 0 then bq_seq0 h else bq_seq1 h)"

definition barq_slot_len :: "barq_shm \<Rightarrow> u32 \<Rightarrow> size_t" where
  "barq_slot_len h i = (if i = 0 then bq_len0 h else bq_len1 h)"

text \<open>
  A run of publish calls; the log collects, for every call that returned true, the
  sequence number that call stored (the one of the slot it made front).
\<close>

fun barq_run ::
  "barq_Writer \<Rightarrow> barq_shm \<Rightarrow> barq_op list \<Rightarrow> barq_Writer \<times> barq_shm \<times> u64 list" where
  "barq_run w h [] = (w, h, [])"
| "barq_run w h (x # xs) =
     (case barq_step w h x of
        (ok, w', h') \<Rightarrow>
          (case barq_run w' h' xs of
             (w'', h'', log) \<Rightarrow>
               (w'', h'', if ok then barq_slot_seq h' (bq_front_idx h') # log else log)))"

text \<open>The private members of \<open>BARQ::Reader\<close> that its read path uses.\<close>

record barq_Reader =
  br_name :: string
  br_max_size :: size_t
  br_initialized :: bool
  br_last_seq :: u64
  br_dropped :: u64

definition barq_Reader_ctor :: "string \<Rightarrow> size_t \<Rightarrow> barq_Reader" where
  "barq_Reader_ctor name max_size =
     \<lparr> br_name = name, br_max_size = max_size, br_initialized = False,
       br_last_seq = 0, br_dropped = 0 \<rparr>"

text \<open>
  \<open>const void* Reader::getLatest(size_t& size, int64_t& timestamp_ns)\<close>. The result is
  the returned pointer (\<open>None\<close> for \<open>nullptr\<close>, otherwise the index of the slot pointed
  to and the bytes there), the two output parameters and the reader.
\<close>

definition barq_getLatest ::
  "barq_Reader \<Rightarrow> barq_shm \<Rightarrow> size_t \<Rightarrow> i64 \<Rightarrow>
     (u32 \<times> bytes) option \<times> size_t \<times> i64 \<times> barq_Reader" where
  "barq_getLatest rd h sz timestamp_ns =
     (if \<not> br_initialized rd then (None, sz, timestamp_ns, rd)
      else
        let front = bq_front_idx h;
            seq = (if front = 0 then bq_seq0 h else bq_seq1 h);
            len = (if front = 0 then bq_len0 h else bq_len1 h);
            ts = (if front = 0 then bq_ts0 h else bq_ts1 h)
        in if seq = br_last_seq rd then (None, sz, timestamp_ns, rd)
           else
             let rd1 = (if br_last_seq rd > 0 \<and> seq > br_last_seq rd + 1
                        then rd\<lparr>br_dropped := br_dropped rd + (seq - br_last_seq rd - 1)\<rparr>
                        else rd);
                 rd2 = rd1\<lparr>br_last_seq := seq\<rparr>
             in (Some (front, if front = 0 then bq_buffer0 h else bq_buffer1 h), len, ts, rd2))"

section \<open>Double buffer, cache-tuned tier: namespace \<open>CASIR\<close> (casir.hpp, casir.cpp)\<close>

text \<open>
  \<open>struct Header\<close> (six cache lines) followed by the two payload slots. The header has
  one \<open>published_length\<close> field for both slots.
\<close>

record casir_shm =
  cs_magic :: u32
  cs_version :: u32
  cs_capacity :: size_t
  cs_huge_page_size :: size_t
  cs_flags :: u32
  cs_front_idx :: u32
  cs_frame0 :: u64
  cs_timestamp0_ns :: i64
  cs_checksum0 :: u32
  cs_frame1 :: u64
  cs_timestamp1_ns :: i64
  cs_checksum1 :: u32
  cs_published_length :: size_t
  cs_writer_heartbeat_ns :: i64
  cs_checksum_enabled :: bool
  cs_total_writes :: u64
  cs_total_bytes :: u64
  cs_buffer0 :: bytes
  cs_buffer1 :: bytes

text \<open>\<open>struct SiCConfig\<close> (cache_utils.hpp)\<close>

record SiCConfig =
  use_huge_pages :: bool
  enable_prefetch :: bool
  numa_aware :: bool
  cpu_affinity :: int
  prefetch_distance :: size_t

record casir_Writer =
  cw_shm_name :: string
  cw_max_size :: size_t
  cw_config :: SiCConfig
  cw_is_initialized :: bool
  cw_shm_fd :: "nat option"
  cw_shm_ptr :: "nat option"
  cw_shm_size :: size_t
  cw_using_huge_pages :: bool
  cw_frame_count :: u64
  cw_cache_info :: CacheInfo

definition CASIR_MAGIC :: u32 where
  "CASIR_MAGIC = 0x43415352"

definition CASIR_VERSION :: u32 where
  "CASIR_VERSION = 0x00010000"

definition casir_sizeof_Header :: size_t where
  "casir_sizeof_Header = 384"

text \<open>
  \<open>Writer::Writer(shm_name, max_size, config)\<close>; \<open>detected\<close> is what
  \<open>CacheUtils::detectCacheInfo()\<close> returns.
\<close>

definition casir_Writer_ctor :: "string \<Rightarrow> size_t \<Rightarrow> SiCConfig \<Rightarrow> CacheInfo \<Rightarrow> casir_Writer" where
  "casir_Writer_ctor shm_name max_size config detected =
     \<lparr> cw_shm_name = shm_name, cw_max_size = max_size,
       cw_config = (if prefetch_distance config = 0
                    then config\<lparr>prefetch_distance := optimal_prefetch_distance detected\<rparr>
                    else config),
       cw_is_initialized = False, cw_shm_fd = None, cw_shm_ptr = None, cw_shm_size = 0,
       cw_using_huge_pages = False, cw_frame_count = 0, cw_cache_info = detected \<rparr>"

text \<open>
  The stores that \<open>write\<close>, \<open>writeZeroCopy\<close> and \<open>commitWrite\<close> share:
  \<open>if (back == 0) { frame0, timestamp0_ns } else { frame1, timestamp1_ns }\<close>, then
  \<open>published_length\<close>, \<open>writer_heartbeat_ns\<close> and \<open>front_idx\<close>.
\<close>

definition casir_publish :: "u32 \<Rightarrow> size_t \<Rightarrow> i64 \<Rightarrow> u64 \<Rightarrow> casir_shm \<Rightarrow> casir_shm" where
  "casir_publish back sz now frame_count h =
     (let h1 = (if back = 0
                then h\<lparr>cs_frame0 := frame_count, cs_timestamp0_ns := now\<rparr>
                else h\<lparr>cs_frame1 := frame_count, cs_timestamp1_ns := now\<rparr>);
          h2 = h1\<lparr>cs_published_length := sz\<rparr>;
          h3 = h2\<lparr>cs_writer_heartbeat_ns := now\<rparr>
      in h3\<lparr>cs_front_idx := back\<rparr>)"

text \<open>\<open>bool Writer::write(const void* data, size_t size)\<close>\<close>

definition casir_write ::
  "casir_Writer \<Rightarrow> casir_shm \<Rightarrow> bytes \<Rightarrow> size_t \<Rightarrow> i64 \<Rightarrow> bool \<times> casir_Writer \<times> casir_shm" where
  "casir_write w h data sz now =
     (if \<not> cw_is_initialized w \<or> sz > cw_max_size w then (False, w, h)
      else
        let front = cs_front_idx h;
            back = 1 - front;
            h1 = (if back = 0
                  then h\<lparr>cs_buffer0 := memcpy (cs_buffer0 h) data (unat sz)\<rparr>
                  else h\<lparr>cs_buffer1 := memcpy (cs_buffer1 h) data (unat sz)\<rparr>);
            w' = w\<lparr>cw_frame_count := cw_frame_count w + 1\<rparr>
        in (True, w', casir_publish back sz now (cw_frame_count w') h1))"

text \<open>
  \<open>bool Writer::writeZeroCopy(std::function<void(void*)> fill_func, size_t size)\<close>;
  \<open>fill_func\<close> is the caller's function on the bytes of the back slot.
\<close>

definition casir_writeZeroCopy ::
  "casir_Writer \<Rightarrow> casir_shm \<Rightarrow> (bytes \<Rightarrow> bytes) \<Rightarrow> size_t \<Rightarrow> i64 \<Rightarrow>
     bool \<times> casir_Writer \<times> casir_shm" where
  "casir_writeZeroCopy w h fill_func sz now =
     (if \<not> cw_is_initialized w \<or> sz > cw_max_size w then (False, w, h)
      else
        let front = cs_front_idx h;
            back = 1 - front;
            h1 = (if back = 0
                  then h\<lparr>cs_buffer0 := fill_func (cs_buffer0 h)\<rparr>
                  else h\<lparr>cs_buffer1 := fill_func (cs_buffer1 h)\<rparr>);
            w' = w\<lparr>cw_frame_count := cw_frame_count w + 1\<rparr>;
            h2 = casir_publish back sz now (cw_frame_count w') h1;
            h3 = h2\<lparr>cs_total_writes := cs_total_writes h2 + 1\<rparr>;
            h4 = h3\<lparr>cs_total_bytes := cs_total_bytes h3 + sz\<rparr>
        in (True, w', h4))"

text \<open>\<open>bool Writer::commitWrite(size_t size)\<close>\<close>

definition casir_commitWrite ::
  "casir_Writer \<Rightarrow> casir_shm \<Rightarrow> size_t \<Rightarrow> i64 \<Rightarrow> bool \<times> casir_Writer \<times> casir_shm" where
  "casir_commitWrite w h sz now =
     (if \<not> cw_is_initialized w \<or> sz > cw_max_size w then (False, w, h)
      else
        let front = cs_front_idx h;
            back = 1 - front;
            w' = w\<lparr>cw_frame_count := cw_frame_count w + 1\<rparr>;
            h2 = casir_publish back sz now (cw_frame_count w') h;
            h3 = h2\<lparr>cs_total_writes := cs_total_writes h2 + 1\<rparr>;
            h4 = h3\<lparr>cs_total_bytes := cs_total_bytes h3 + sz\<rparr>
        in (True, w', h4))"

text \<open>
  \<open>struct HugePagesInfo\<close> and \<open>CacheUtils::shouldUseHugePages\<close> (cache_utils.cpp); \<open>hp\<close>
  is what \<open>detectHugePages()\<close> returns inside the call. The page count divides by the
  reported page size: a reported size of 0 traps the process, which is the result \<open>None\<close>.
\<close>

record HugePagesInfo =
  hp_available :: bool
  hp_usable :: bool
  hp_total :: size_t
  hp_free :: size_t
  hp_page_size :: size_t

definition shouldUseHugePages :: "HugePagesInfo \<Rightarrow> size_t \<Rightarrow> bool option" where
  "shouldUseHugePages hp sz =
     (if sz < 1024 * 1024 then Some False
      else if \<not> hp_usable hp then Some False
      else if hp_page_size hp = 0 then None
      else Some ((sz + hp_page_size hp - 1) div hp_page_size hp \<le> hp_free hp))"

text \<open>
  The system's answers during one \<open>CASIR::Writer::init\<close>: those of \<open>os_env\<close> and the two
  huge-page reports, the first read by \<open>shouldUseHugePages\<close> and the second by
  \<open>allocateMemory\<close>.
\<close>

record casir_env = os_env +
  env_hp_first :: HugePagesInfo
  env_hp_second :: HugePagesInfo

text \<open>
  The region as \<open>Writer::init\<close> leaves it (the heartbeat keeps the zero of \<open>memset\<close>).
\<close>

definition casir_init_region :: "size_t \<Rightarrow> bool \<Rightarrow> size_t \<Rightarrow> casir_shm" where
  "casir_init_region max_size using_huge_pages aligned_buffer_size =
     \<lparr> cs_magic = CASIR_MAGIC, cs_version = CASIR_VERSION, cs_capacity = max_size,
       cs_huge_page_size = (if using_huge_pages then HUGE_PAGE_SIZE else 0),
       cs_flags = (if using_huge_pages then 1 else 0),
       cs_front_idx = 0, cs_frame0 = 0, cs_timestamp0_ns = 0, cs_checksum0 = 0,
       cs_frame1 = 0, cs_timestamp1_ns = 0, cs_checksum1 = 0,
       cs_published_length = 0, cs_writer_heartbeat_ns = 0, cs_checksum_enabled = False,
       cs_total_writes = 0, cs_total_bytes = 0,
       cs_buffer0 = replicate (unat aligned_buffer_size) 0,
       cs_buffer1 = replicate (unat aligned_buffer_size) 0 \<rparr>"

definition casir_empty :: casir_shm where
  "casir_empty =
     \<lparr> cs_magic = 0, cs_version = 0, cs_capacity = 0, cs_huge_page_size = 0, cs_flags = 0,
       cs_front_idx = 0, cs_frame0 = 0, cs_timestamp0_ns = 0, cs_checksum0 = 0,
       cs_frame1 = 0, cs_timestamp1_ns = 0, cs_checksum1 = 0,
       cs_published_length = 0, cs_writer_heartbeat_ns = 0, cs_checksum_enabled = False,
       cs_total_writes = 0, cs_total_bytes = 0, cs_buffer0 = [], cs_buffer1 = [] \<rparr>"

text \<open>
  \<open>bool Writer::allocateMemory()\<close>: the result is \<open>None\<close> when both mappings fail
  (\<open>shm_ptr_ = nullptr\<close>, return false), otherwise the value of \<open>using_huge_pages_\<close>.
\<close>

definition casir_allocateMemory :: "casir_Writer \<Rightarrow> casir_env \<Rightarrow> bool option" where
  "casir_allocateMemory w env =
     (if use_huge_pages (cw_config w) \<and> hp_usable (env_hp_second env) \<and> env_mmap_huge_ok env
      then Some True
      else if env_mmap_ok env then Some False
      else None)"

text \<open>
  \<open>bool Writer::init()\<close>. \<open>setCpuAffinity\<close> and the prefetches change nothing a caller
  can observe. The outer \<open>None\<close> is the trap inside \<open>shouldUseHugePages\<close>, which the
  source evaluates only when \<open>config_.use_huge_pages\<close> is set.
\<close>

definition casir_init ::
  "casir_Writer \<Rightarrow> casir_env \<Rightarrow> casir_shm shm_world \<Rightarrow>
     (bool \<times> casir_Writer \<times> casir_shm shm_world) option" where
  "casir_init w env W =
     (if cw_is_initialized w then Some (True, w, W)
      else
        let aligned_buffer = alignToCacheLine (cw_max_size w);
            shm_size0 = casir_sizeof_Header + aligned_buffer * 2
        in case (if use_huge_pages (cw_config w)
                 then shouldUseHugePages (env_hp_first env) shm_size0 else Some False) of
             None \<Rightarrow> None
           | Some should \<Rightarrow>
               let shm_size = (if should then alignToHugePage shm_size0 else shm_size0);
                   w1 = w\<lparr>cw_shm_size := shm_size\<rparr>;
                   W1 = shm_unlink (cw_shm_name w) W;
                   (fd, W2) = shm_open_creat True (env_open_ok env) casir_empty
                                (cw_shm_name w) W1
               in case fd of
                    None \<Rightarrow> Some (False, w1\<lparr>cw_shm_fd := None\<rparr>, W2)
                  | Some i \<Rightarrow>
                      let w2 = w1\<lparr>cw_shm_fd := Some i\<rparr>
                      in if \<not> env_ftruncate_ok env
                         then Some (False, w2, shm_unlink (cw_shm_name w) W2)
                         else
                           case casir_allocateMemory w2 env of
                             None \<Rightarrow>
                               Some (False, w2\<lparr>cw_shm_ptr := None\<rparr>,
                                     shm_unlink (cw_shm_name w) W2)
                           | Some huge \<Rightarrow>
                               let w3 = w2\<lparr>cw_shm_ptr := Some i, cw_using_huge_pages := huge\<rparr>;
                                   W3 = W2\<lparr>shm_objs := (shm_objs W2)
                                          (i \<mapsto> casir_init_region (cw_max_size w) huge
                                                  aligned_buffer)\<rparr>
                               in Some (True, w3\<lparr>cw_is_initialized := True\<rparr>, W3))"

text \<open>
  The three ways to publish, as one step: \<open>write\<close>, \<open>writeZeroCopy\<close>, and \<open>commitWrite\<close>
  after the caller has filled the pointer \<open>getWriteBuffer()\<close> returned.
\<close>

datatype casir_op =
    CWrite bytes size_t i64
  | CWriteZeroCopy "bytes \<Rightarrow> bytes" size_t i64
  | CCommitWrite size_t i64

fun casir_step :: "casir_Writer \<Rightarrow> casir_shm \<Rightarrow> casir_op \<Rightarrow> bool \<times> casir_Writer \<times> casir_shm" where
  "casir_step w h (CWrite data sz now) = casir_write w h data sz now"
| "casir_step w h (CWriteZeroCopy fill_func sz now) = casir_writeZeroCopy w h fill_func sz now"
| "casir_step w h (CCommitWrite sz now) = casir_commitWrite w h sz now"

fun casir_op_size :: "casir_op \<Rightarrow> size_t" where
  "casir_op_size (CWrite data sz now) = sz"
| "casir_op_size (CWriteZeroCopy fill_func sz now) = sz"
| "casir_op_size (CCommitWrite sz now) = sz"

text \<open>The frame number of slot \<open>i\<close>, read as \<open>Reader::read\<close> reads it.\<close>

definition casir_slot_frame :: "casir_shm \<Rightarrow> u32 \<Rightarrow> u64" where
  "casir_slot_frame h i = (if i = 0 then cs_frame0 h else cs_frame1 h)"

text \<open>
  The payload length the header records for slot \<open>i\<close>: whichever slot is front,
  \<open>Reader::read\<close> and \<open>Reader::readZeroCopy\<close> load \<open>published_length\<close>.
\<close>

definition casir_slot_len :: "casir_shm \<Rightarrow> u32 \<Rightarrow> size_t" where
  "casir_slot_len h i = cs_published_length h"

fun casir_run ::
  "casir_Writer \<Rightarrow> casir_shm \<Rightarrow> casir_op list \<Rightarrow> casir_Writer \<times> casir_shm \<times> u64 list" where
  "casir_run w h [] = (w, h, [])"
| "casir_run w h (x # xs) =
     (case casir_step w h x of
        (ok, w', h') \<Rightarrow>
          (case casir_run w' h' xs of
             (w'', h'', log) \<Rightarrow>
               (w'', h'', if ok then casir_slot_frame h' (cs_front_idx h') # log else log)))"

text \<open>The private members of \<open>CASIR::Reader\<close> that its read path uses.\<close>

record casir_Reader =
  cr_shm_name :: string
  cr_max_size :: size_t
  cr_config :: SiCConfig
  cr_is_initialized :: bool
  cr_last_frame :: u64
  cr_last_timestamp_ns :: i64
  cr_dropped_frames :: u64
  cr_last_checksum_valid :: bool
  cr_zero_copy_active :: bool
  cr_cache_info :: CacheInfo

definition casir_Reader_ctor :: "string \<Rightarrow> size_t \<Rightarrow> SiCConfig \<Rightarrow> CacheInfo \<Rightarrow> casir_Reader" where
  "casir_Reader_ctor shm_name max_size config detected =
     \<lparr> cr_shm_name = shm_name, cr_max_size = max_size,
       cr_config = (if prefetch_distance config = 0
                    then config\<lparr>prefetch_distance := optimal_prefetch_distance detected\<rparr>
                    else config),
       cr_is_initialized = False, cr_last_frame = 0, cr_last_timestamp_ns = 0,
       cr_dropped_frames = 0, cr_last_checksum_valid = True, cr_zero_copy_active = False,
       cr_cache_info = detected \<rparr>"

text \<open>
  \<open>bool Reader::read(void* data, size_t& size)\<close>. \<open>data\<close> is the caller's buffer and
  \<open>size\<close> the output parameter; the result is the returned flag, the caller's buffer,
  the output parameter and the reader.
\<close>

definition casir_read ::
  "casir_Reader \<Rightarrow> casir_shm \<Rightarrow> bytes \<Rightarrow> size_t \<Rightarrow> bool \<times> bytes \<times> size_t \<times> casir_Reader" where
  "casir_read rd h data sz =
     (if \<not> cr_is_initialized rd then (False, data, sz, rd)
      else
        let front = cs_front_idx h;
            current_frame = (if front = 0 then cs_frame0 h else cs_frame1 h)
        in if current_frame = cr_last_frame rd then (False, data, sz, rd)
           else
             let rd1 = (if cr_last_frame rd > 0 \<and> current_frame > cr_last_frame rd + 1
                        then rd\<lparr>cr_dropped_frames :=
                                 cr_dropped_frames rd + (current_frame - cr_last_frame rd - 1)\<rparr>
                        else rd);
                 data_size = cs_published_length h
             in if data_size > cr_max_size rd then (False, data, sz, rd1)
                else
                  let data' = memcpy data (if front = 0 then cs_buffer0 h else cs_buffer1 h)
                                (unat data_size);
                      rd2 = rd1\<lparr>cr_last_frame := current_frame\<rparr>;
                      rd3 = rd2\<lparr>cr_last_timestamp_ns :=
                                  (if front = 0 then cs_timestamp0_ns h else cs_timestamp1_ns h)\<rparr>
                  in (True, data', data_size, rd3))"


section \<open>Ring fan-out: namespace \<open>SAHM\<close> (sahm.hpp, sahm.cpp)\<close>

definition DIRECT_MAGIC :: u32 where
  "DIRECT_MAGIC = 0xD1EC7002"

definition MAX_READERS :: nat where
  "MAX_READERS = 16"

definition SHM_NAME_LEN :: nat where
  "SHM_NAME_LEN = 64"

definition DEFAULT_RING_SIZE :: u32 where
  "DEFAULT_RING_SIZE = 30"

text \<open>\<open>sizeof(RingSlot)\<close> and \<open>sizeof(RingBufferHeader)\<close>: both structs are \<open>alignas(64)\<close>.\<close>

definition sizeof_RingSlot :: size_t where
  "sizeof_RingSlot = 64"

definition sizeof_RingBufferHeader :: size_t where
  "sizeof_RingBufferHeader = 64"

text \<open>
  \<open>struct ControlHeader\<close>. The three arrays have \<open>MAX_READERS\<close> entries; a name is the
  C string its 64-byte field holds.
\<close>

record ControlHeader =
  ch_magic :: u32
  ch_version :: u32
  ch_max_slot_size :: size_t
  ch_num_readers :: u32
  ch_writer_heartbeat_ns :: i64
  ch_reader_shm_names :: "string list"
  ch_reader_active :: "bool list"
  ch_reader_ring_sizes :: "u32 list"

text \<open>\<open>struct RingSlot\<close> with the payload area that follows it.\<close>

record RingSlot =
  rs_sequence :: u64
  rs_timestamp_ns :: i64
  rs_data_size :: size_t
  rs_data :: bytes

text \<open>
  \<open>struct RingBufferHeader\<close> with the slot records that follow it. Slot \<open>idx\<close> is at
  \<open>slots_base + idx * slot_total_size\<close>; the model keeps the slots as a list and does
  not go below that layout.
\<close>

record RingBuffer =
  rb_magic :: u32
  rb_ring_size :: u32
  rb_slot_data_size :: size_t
  rb_slot_total_size :: size_t
  rb_write_idx :: u32
  rb_total_writes :: u64
  rb_slots :: "RingSlot list"

text \<open>What a shared-memory object of this engine holds.\<close>

datatype sahm_obj = EmptyObj | ControlObj ControlHeader | RingObj RingBuffer

text \<open>\<open>struct DirectWriter::ReaderInfo\<close>; \<open>ring_header\<close> and \<open>slots_base\<close> point into \<open>ptr\<close>.\<close>

record ReaderInfo =
  ri_fd :: "nat option"
  ri_ptr :: "nat option"
  ri_size :: size_t
  ri_ring_size :: u32
  ri_valid :: bool

record DirectWriter =
  dw_channel_name :: string
  dw_max_slot_size :: size_t
  dw_is_initialized :: bool
  dw_control_fd :: "nat option"
  dw_header :: "nat option"
  dw_control_size :: size_t
  dw_readers :: "ReaderInfo list"

definition sizeof_ControlHeader :: size_t where
  "sizeof_ControlHeader = 1152"

definition DirectWriter_ctor :: "string \<Rightarrow> size_t \<Rightarrow> DirectWriter" where
  "DirectWriter_ctor channel_name max_slot_size =
     \<lparr> dw_channel_name = channel_name, dw_max_slot_size = max_slot_size,
       dw_is_initialized = False, dw_control_fd = None, dw_header = None,
       dw_control_size = sizeof_ControlHeader, dw_readers = [] \<rparr>"

text \<open>The control header and the reader table as \<open>DirectWriter::init\<close> sets them.\<close>

definition control_init :: "size_t \<Rightarrow> i64 \<Rightarrow> ControlHeader" where
  "control_init max_slot_size now =
     \<lparr> ch_magic = DIRECT_MAGIC, ch_version = 2, ch_max_slot_size = max_slot_size,
       ch_num_readers = 0, ch_writer_heartbeat_ns = now,
       ch_reader_shm_names = replicate MAX_READERS [],
       ch_reader_active = replicate MAX_READERS False,
       ch_reader_ring_sizes = replicate MAX_READERS 0 \<rparr>"

definition invalid_reader :: ReaderInfo where
  "invalid_reader =
     \<lparr> ri_fd = None, ri_ptr = None, ri_size = 0, ri_ring_size = 0, ri_valid = False \<rparr>"

text \<open>
  \<open>bool DirectWriter::init()\<close>: \<open>shm_unlink\<close>, then \<open>shm_open\<close> with
  \<open>O_CREAT | O_RDWR\<close> (no \<open>O_EXCL\<close>), \<open>ftruncate\<close>, \<open>mmap\<close>, the header and the
  table of 16 invalid reader handles.
\<close>

definition sahm_writer_init ::
  "DirectWriter \<Rightarrow> os_env \<Rightarrow> i64 \<Rightarrow> sahm_obj shm_world \<Rightarrow>
     bool \<times> DirectWriter \<times> sahm_obj shm_world" where
  "sahm_writer_init w env now W =
     (if dw_is_initialized w then (True, w, W)
      else
        let W1 = shm_unlink (dw_channel_name w) W;
            (fd, W2) = shm_open_creat False (env_open_ok env) EmptyObj (dw_channel_name w) W1
        in case fd of
             None \<Rightarrow> (False, w\<lparr>dw_control_fd := None\<rparr>, W2)
           | Some i \<Rightarrow>
               let w2 = w\<lparr>dw_control_fd := Some i\<rparr>
               in if \<not> env_ftruncate_ok env
                  then (False, w2, shm_unlink (dw_channel_name w) W2)
                  else if \<not> env_mmap_ok env
                  then (False, w2, shm_unlink (dw_channel_name w) W2)
                  else
                    let W3 = W2\<lparr>shm_objs := (shm_objs W2)
                               (i \<mapsto> ControlObj (control_init (dw_max_slot_size w) now))\<rparr>;
                        w3 = w2\<lparr>dw_header := Some i,
                                dw_readers := replicate MAX_READERS invalid_reader\<rparr>
                    in (True, w3\<lparr>dw_is_initialized := True\<rparr>, W3))"

text \<open>
  What the system answers during one \<open>discoverReaders\<close>: whether \<open>shm_open\<close> and
  \<open>mmap\<close> of the ring named by directory entry \<open>i\<close> are granted.
\<close>

record discover_env =
  dn_open_ok :: "nat \<Rightarrow> bool"
  dn_mmap_ok :: "nat \<Rightarrow> bool"

text \<open>
  The body of the loop of \<open>DirectWriter::discoverReaders\<close> for entry \<open>i\<close>, on the
  handle \<open>readers_[i]\<close>. An active entry with an empty name, a failed open or a failed
  mapping is skipped (\<open>continue\<close>).
\<close>

definition discover_entry ::
  "ControlHeader \<Rightarrow> (string \<rightharpoonup> nat) \<Rightarrow> discover_env \<Rightarrow> size_t \<Rightarrow> nat \<Rightarrow>
     ReaderInfo \<Rightarrow> ReaderInfo" where
  "discover_entry hdr names env max_slot_size i r =
     (let active = ch_reader_active hdr ! i
      in if active \<and> \<not> ri_valid r then
           (let name = ch_reader_shm_names hdr ! i
            in if name = [] then r
               else
                 case (if dn_open_ok env i then names name else None) of
                   None \<Rightarrow> r
                 | Some fd \<Rightarrow>
                     let ring_size0 = ch_reader_ring_sizes hdr ! i;
                         ring_size = (if ring_size0 = 0 then DEFAULT_RING_SIZE else ring_size0);
                         slot_total = sizeof_RingSlot + max_slot_size;
                         buf_size = sizeof_RingBufferHeader + ucast ring_size * slot_total
                     in if \<not> dn_mmap_ok env i then r
                        else r\<lparr>ri_fd := Some fd, ri_ptr := Some fd, ri_size := buf_size,
                               ri_ring_size := ring_size, ri_valid := True\<rparr>)
         else if \<not> active \<and> ri_valid r then r\<lparr>ri_valid := False\<rparr>
         else r)"








text \<open>The private members of \<open>DirectReader\<close>.\<close>

record DirectReader =
  dr_channel_name :: string
  dr_my_shm_name :: string
  dr_max_slot_size :: size_t
  dr_ring_size :: u32
  dr_is_initialized :: bool
  dr_my_slot_idx :: int
  dr_control_fd :: "nat option"
  dr_header :: "nat option"
  dr_buffer_fd :: "nat option"
  dr_buffer_ptr :: "nat option"
  dr_buffer_size :: size_t
  dr_slot_total_size :: size_t

text \<open>
  \<open>DirectReader::DirectReader(channel_name, max_slot_size, ring_size)\<close>; \<open>pid_text\<close> is
  what \<open>std::to_string(getpid())\<close> returns.
\<close>

definition DirectReader_ctor :: "string \<Rightarrow> size_t \<Rightarrow> u32 \<Rightarrow> string \<Rightarrow> DirectReader" where
  "DirectReader_ctor channel_name max_slot_size ring_size pid_text =
     \<lparr> dr_channel_name = channel_name,
       dr_my_shm_name = channel_name @ ''_reader_'' @ pid_text,
       dr_max_slot_size = max_slot_size, dr_ring_size = ring_size,
       dr_is_initialized = False, dr_my_slot_idx = -1,
       dr_control_fd = None, dr_header = None, dr_buffer_fd = None, dr_buffer_ptr = None,
       dr_buffer_size = sizeof_RingBufferHeader
                          + ucast ring_size * (sizeof_RingSlot + max_slot_size),
       dr_slot_total_size = sizeof_RingSlot + max_slot_size \<rparr>"

text \<open>The ring as \<open>DirectReader::init\<close> sets it up: header fields, every slot zero.\<close>

definition ring_init :: "u32 \<Rightarrow> size_t \<Rightarrow> size_t \<Rightarrow> RingBuffer" where
  "ring_init ring_size max_slot_size slot_total_size =
     \<lparr> rb_magic = DIRECT_MAGIC, rb_ring_size = ring_size, rb_slot_data_size = max_slot_size,
       rb_slot_total_size = slot_total_size, rb_write_idx = 0, rb_total_writes = 0,
       rb_slots = replicate (unat ring_size)
         \<lparr> rs_sequence = 0, rs_timestamp_ns = 0, rs_data_size = 0,
           rs_data = replicate (unat max_slot_size) 0 \<rparr> \<rparr>"

text \<open>
  Registration with the control channel, one shared-memory store at a time, in the
  order of the source: the compare-exchange that sets \<open>reader_active[i]\<close>, the
  \<open>strncpy\<close> of the name with its terminating zero, the ring size, the reader count.
\<close>

datatype reg_step =
    ClaimActive nat
  | CopyName nat string
  | StoreRingSize nat u32
  | CountReader

fun apply_reg_step :: "reg_step \<Rightarrow> ControlHeader \<Rightarrow> ControlHeader" where
  "apply_reg_step (ClaimActive i) hdr =
     hdr\<lparr>ch_reader_active := (ch_reader_active hdr)[i := True]\<rparr>"
| "apply_reg_step (CopyName i name) hdr =
     hdr\<lparr>ch_reader_shm_names := (ch_reader_shm_names hdr)[i := take (SHM_NAME_LEN - 1) name]\<rparr>"
| "apply_reg_step (StoreRingSize i ring_size) hdr =
     hdr\<lparr>ch_reader_ring_sizes := (ch_reader_ring_sizes hdr)[i := ring_size]\<rparr>"
| "apply_reg_step CountReader hdr = hdr\<lparr>ch_num_readers := ch_num_readers hdr + 1\<rparr>"

definition register_steps :: "nat \<Rightarrow> string \<Rightarrow> u32 \<Rightarrow> reg_step list" where
  "register_steps i name ring_size =
     [ClaimActive i, CopyName i name, StoreRingSize i ring_size, CountReader]"

text \<open>
  The entry the loop claims: the first \<open>i < MAX_READERS\<close> whose compare-exchange from
  false to true succeeds.
\<close>

fun first_inactive :: "nat \<Rightarrow> bool list \<Rightarrow> nat option" where
  "first_inactive i [] = None"
| "first_inactive i (a # as) = (if \<not> a then Some i else first_inactive (Suc i) as)"

definition claimed_entry :: "ControlHeader \<Rightarrow> nat option" where
  "claimed_entry hdr = first_inactive 0 (take MAX_READERS (ch_reader_active hdr))"

text \<open>
  The control header after each store of a registration, in order: the states another
  process can observe while the reader registers.
\<close>

fun states_after :: "reg_step list \<Rightarrow> ControlHeader \<Rightarrow> ControlHeader list" where
  "states_after [] hdr = []"
| "states_after (s # ss) hdr = apply_reg_step s hdr # states_after ss (apply_reg_step s hdr)"

definition registration_trace :: "ControlHeader \<Rightarrow> string \<Rightarrow> u32 \<Rightarrow> ControlHeader list" where
  "registration_trace hdr name ring_size =
     (case claimed_entry hdr of
        None \<Rightarrow> []
      | Some i \<Rightarrow> states_after (register_steps i name ring_size) hdr)"

definition register_reader :: "ControlHeader \<Rightarrow> string \<Rightarrow> u32 \<Rightarrow> (nat \<times> ControlHeader) option" where
  "register_reader hdr name ring_size =
     (case claimed_entry hdr of
        None \<Rightarrow> None
      | Some i \<Rightarrow> Some (i, fold apply_reg_step (register_steps i name ring_size) hdr))"

text \<open>
  What the system answers during one \<open>DirectReader::init\<close>: open and mapping of the
  control channel, then create, \<open>ftruncate\<close> and mapping of the reader's ring.
\<close>

record reader_env =
  rn_open_control_ok :: bool
  rn_mmap_control_ok :: bool
  rn_open_ok :: bool
  rn_ftruncate_ok :: bool
  rn_mmap_ok :: bool

text \<open>
  \<open>bool DirectReader::init()\<close>. The result is \<open>None\<close> when the channel name denotes
  an object that is not a control header, which the model does not describe.
\<close>

definition sahm_reader_init ::
  "DirectReader \<Rightarrow> reader_env \<Rightarrow> sahm_obj shm_world \<Rightarrow>
     (bool \<times> DirectReader \<times> sahm_obj shm_world) option" where
  "sahm_reader_init rd env W =
     (if dr_is_initialized rd then Some (True, rd, W)
      else
        case shm_open_existing (rn_open_control_ok env) (dr_channel_name rd) W of
          None \<Rightarrow> Some (False, rd\<lparr>dr_control_fd := None\<rparr>, W)
        | Some c \<Rightarrow>
            let rd1 = rd\<lparr>dr_control_fd := Some c\<rparr>
            in if \<not> rn_mmap_control_ok env then Some (False, rd1, W)
               else
                 case shm_objs W c of
                   Some (ControlObj hdr0) \<Rightarrow>
                     let rd2 = rd1\<lparr>dr_header := Some c\<rparr>
                     in if ch_magic hdr0 \<noteq> DIRECT_MAGIC then Some (False, rd2, W)
                        else
                          let W1 = shm_unlink (dr_my_shm_name rd) W;
                              (bfd, W2) = shm_open_creat False (rn_open_ok env) EmptyObj
                                            (dr_my_shm_name rd) W1
                          in (case bfd of
                                None \<Rightarrow> Some (False, rd2\<lparr>dr_buffer_fd := None\<rparr>, W2)
                              | Some b \<Rightarrow>
                                  let rd3 = rd2\<lparr>dr_buffer_fd := Some b\<rparr>
                                  in if \<not> rn_ftruncate_ok env \<or> \<not> rn_mmap_ok env
                                     then Some (False, rd3, shm_unlink (dr_my_shm_name rd) W2)
                                     else
                                       let rd4 = rd3\<lparr>dr_buffer_ptr := Some b\<rparr>;
                                           W3 = W2\<lparr>shm_objs := (shm_objs W2)
                                                  (b \<mapsto> RingObj (ring_init (dr_ring_size rd)
                                                     (dr_max_slot_size rd)
                                                     (dr_slot_total_size rd)))\<rparr>
                                       in (case shm_objs W3 c of
                                             Some (ControlObj hdr) \<Rightarrow>
                                               (case register_reader hdr (dr_my_shm_name rd)
                                                       (dr_ring_size rd) of
                                                  None \<Rightarrow>
                                                    Some (False, rd4,
                                                          shm_unlink (dr_my_shm_name rd) W3)
                                                | Some (i, hdr') \<Rightarrow>
                                                    Some (True,
                                                      rd4\<lparr>dr_my_slot_idx := int i,
                                                          dr_is_initialized := True\<rparr>,
                                                      W3\<lparr>shm_objs := (shm_objs W3)
                                                           (c \<mapsto> ControlObj hdr')\<rparr>))
                                           | _ \<Rightarrow> None))
                 | _ \<Rightarrow> None)"








section \<open>Concrete configurations\<close>

text \<open>A system that grants every call, and one with no shared-memory object yet.\<close>

definition env_all_ok :: os_env where
  "env_all_ok =
     \<lparr> env_open_ok = True, env_ftruncate_ok = True, env_mmap_huge_ok = True,
       env_mmap_ok = True \<rparr>"

definition no_huge_pages :: HugePagesInfo where
  "no_huge_pages =
     \<lparr> hp_available = False, hp_usable = False, hp_total = 0, hp_free = 0,
       hp_page_size = 2097152 \<rparr>"

definition casir_env_all_ok :: casir_env where
  "casir_env_all_ok =
     \<lparr> env_open_ok = True, env_ftruncate_ok = True, env_mmap_huge_ok = True,
       env_mmap_ok = True, env_hp_first = no_huge_pages, env_hp_second = no_huge_pages \<rparr>"

definition shm_empty_world :: "'r shm_world" where
  "shm_empty_world = \<lparr> shm_names = Map.empty, shm_objs = Map.empty, shm_next = 0 \<rparr>"

text \<open>\<open>SiCConfig::portable()\<close>\<close>

definition portable :: SiCConfig where
  "portable =
     \<lparr> use_huge_pages = False, enable_prefetch = True, numa_aware = False,
       cpu_affinity = -1, prefetch_distance = 64 * 1024 \<rparr>"

text \<open>
  A writer constructed for \<open>name\<close> and \<open>max_size\<close> and initialised on the empty system,
  with the region it has mapped.
\<close>

definition barq_started :: "string \<Rightarrow> size_t \<Rightarrow> i64 \<Rightarrow> barq_Writer \<times> barq_shm" where
  "barq_started name max_size now =
     (case barq_init (barq_Writer_ctor name max_size False) env_all_ok now shm_empty_world of
        (ok, w, W) \<Rightarrow> (w, case shm_at W (bw_ptr w) of Some h \<Rightarrow> h | None \<Rightarrow> barq_empty))"

definition casir_started :: "string \<Rightarrow> size_t \<Rightarrow> casir_Writer \<times> casir_shm" where
  "casir_started name max_size =
     (case casir_init (casir_Writer_ctor name max_size portable (default_cache_info 4))
             casir_env_all_ok shm_empty_world of
        Some (ok, w, W) \<Rightarrow> (w, case shm_at W (cw_shm_ptr w) of Some h \<Rightarrow> h | None \<Rightarrow> casir_empty)
      | None \<Rightarrow> (casir_Writer_ctor name max_size portable (default_cache_info 4), casir_empty))"

text \<open>
  A reader after a successful \<open>Reader::init\<close>, which sets the descriptor, the mapping,
  the slot pointers and the initialised flag and leaves the cursor and the dropped
  counter as the constructor set them.
\<close>

definition barq_attached :: "string \<Rightarrow> size_t \<Rightarrow> barq_Reader" where
  "barq_attached name max_size = (barq_Reader_ctor name max_size)\<lparr>br_initialized := True\<rparr>"

definition casir_attached :: "string \<Rightarrow> size_t \<Rightarrow> casir_Reader" where
  "casir_attached name max_size =
     (casir_Reader_ctor name max_size portable (default_cache_info 4))\<lparr>cr_is_initialized := True\<rparr>"

text \<open>
  Four publish calls on a writer of capacity 1024; the third asks for 2000 bytes and is
  refused.
\<close>

definition example_barq_ops :: "barq_op list" where
  "example_barq_ops = [BWrite [1, 2] 2 10, BCommit 2 20, BWrite [] 2000 25, BWrite [7] 1 30]"

definition example_casir_ops :: "casir_op list" where
  "example_casir_ops =
     [CWrite [1, 2] 2 10, CCommitWrite 2 20, CWriteZeroCopy (\<lambda>b. b) 2000 25,
      CWriteZeroCopy (\<lambda>b. b) 1 30]"

text \<open>
  The region of the example writer after it has committed one 8-byte frame at each of
  the given clock values.
\<close>

definition example_barq_after :: "i64 list \<Rightarrow> barq_shm" where
  "example_barq_after ts =
     (case barq_started ''/sensor'' 1024 0 of
        (w, h) \<Rightarrow> fst (snd (barq_run w h (map (BCommit 8) ts))))"

definition example_casir_after :: "i64 list \<Rightarrow> casir_shm" where
  "example_casir_after ts =
     (case casir_started ''/sensor'' 1024 of
        (w, h) \<Rightarrow> fst (snd (casir_run w h (map (CCommitWrite 8) ts))))"

text \<open>The reader of each tier after its first read, which observed frame 1.\<close>

definition example_barq_reader_at_1 :: barq_Reader where
  "example_barq_reader_at_1 =
     snd (snd (snd (barq_getLatest (barq_attached ''/sensor'' 1024)
                      (example_barq_after [1]) 0 0)))"

definition example_casir_reader_at_1 :: casir_Reader where
  "example_casir_reader_at_1 =
     snd (snd (snd (casir_read (casir_attached ''/sensor'' 1024)
                      (example_casir_after [1]) (replicate 16 0) 0)))"

text \<open>
  The ring fan-out channel \<open>/chan\<close> with capacity 1024 on the empty system: the writer
  after \<open>init\<close>, and a reader of process 42 with a ring of three slots after its
  \<open>init\<close>; five one-byte publishes.
\<close>

definition reader_env_all_ok :: reader_env where
  "reader_env_all_ok =
     \<lparr> rn_open_control_ok = True, rn_mmap_control_ok = True, rn_open_ok = True,
       rn_ftruncate_ok = True, rn_mmap_ok = True \<rparr>"

definition discover_all_ok :: discover_env where
  "discover_all_ok = \<lparr> dn_open_ok = (\<lambda>i. True), dn_mmap_ok = (\<lambda>i. True) \<rparr>"

definition example_fanout_writer :: "bool \<times> DirectWriter \<times> sahm_obj shm_world" where
  "example_fanout_writer =
     sahm_writer_init (DirectWriter_ctor ''/chan'' 1024) env_all_ok 0 shm_empty_world"

definition example_fanout_reader :: "(bool \<times> DirectReader \<times> sahm_obj shm_world) option" where
  "example_fanout_reader =
     sahm_reader_init (DirectReader_ctor ''/chan'' 1024 3 ''42'') reader_env_all_ok
       (snd (snd example_fanout_writer))"








section \<open>Properties of the platform probe\<close>

text \<open>
  C7 (as stated, refuted): the prefetch distance would be \<open>L2/4\<close> with a 64 KiB floor.
  A detected L2 of 128 KiB gives 32 KiB, below the floor the claim promises.
\<close>

theorem C7_prefetch_floor_counterexample:
  "optimal_prefetch_distance
     \<lparr> l1d_size = 32768, l1i_size = 32768, l2_size = 131072,
       l3_size = 8388608, line_size = 64, num_cores = 4 \<rparr> = 32768
   \<and> \<not> (65536 :: size_t) \<le> optimal_prefetch_distance
     \<lparr> l1d_size = 32768, l1i_size = 32768, l2_size = 131072,
       l3_size = 8388608, line_size = 64, num_cores = 4 \<rparr>"
  by (simp add: optimal_prefetch_distance_def)

text \<open>
  C7 (amended): the prefetch distance is \<open>L2/4\<close> whenever the detected L2 size is
  non-zero and 64 KiB only when it is zero (a fallback, not a floor); the chunk size is
  \<open>L3/2\<close> whenever the detected L3 size is non-zero and 1 MiB when it is zero.
\<close>

theorem C7_prefetch_and_chunk:
  "optimal_prefetch_distance c = (if l2_size c = 0 then 65536 else l2_size c div 4)
   \<and> optimal_chunk_size c = (if l3_size c = 0 then 1048576 else l3_size c div 2)"
  by (simp add: optimal_prefetch_distance_def optimal_chunk_size_def word_greater_zero_iff)

theorem C7_prefetch_and_chunk_witness:
  "optimal_prefetch_distance (default_cache_info 8) = 65536
   \<and> optimal_chunk_size (default_cache_info 8) = 4194304
   \<and> optimal_prefetch_distance ((default_cache_info 8)\<lparr>l2_size := 0\<rparr>) = 65536
   \<and> optimal_chunk_size ((default_cache_info 8)\<lparr>l3_size := 0\<rparr>) = 1048576"
  using C7_prefetch_and_chunk [of "default_cache_info 8"]
    C7_prefetch_and_chunk [of "(default_cache_info 8)\<lparr>l2_size := 0\<rparr>"]
    C7_prefetch_and_chunk [of "(default_cache_info 8)\<lparr>l3_size := 0\<rparr>"]
  by (simp add: default_cache_info_def)


section \<open>Properties of the double-buffer transports\<close>

subsection \<open>Arithmetic of the 64-bit counters\<close>

lemma u64_bound: "unat (x :: u64) < 18446744073709551616"
  using unsigned_less [of x, where 'a = nat] by simp

lemma u64_gap:
  fixes s l :: u64
  assumes "unat l + 1 < unat s"
  shows "l + 1 < s" and "unat (s - l - 1) = unat s - unat l - 1"
proof -
  have b: "unat s < 18446744073709551616" by (rule u64_bound)
  have l1: "unat (l + 1) = unat l + 1"
    using assms b by (simp add: unat_plus_if')
  show "l + 1 < s" using assms l1 by (simp add: word_less_nat_alt)
  have e: "s - l - 1 = s - (l + 1)" by simp
  have "unat (s - (l + 1)) = unat s - unat (l + 1)"
    using assms l1 by (simp add: unat_sub word_le_nat_alt)
  then show "unat (s - l - 1) = unat s - unat l - 1" unfolding e l1 by simp
qed


lemma u64_of_nat_Suc:
  assumes "Suc j < 18446744073709551616"
  shows "unat (of_nat (Suc j) :: u64) = Suc j"
  using assms by (simp add: unat_of_nat del: of_nat_Suc)


lemma u64_log_numbered:
  fixes log :: "u64 list"
  assumes "\<forall>j<length log. log ! j = of_nat (Suc j)" and "length log < 2 ^ 64"
  shows "(\<forall>j<length log. unat (log ! j) = Suc j)
         \<and> (\<forall>i j. i < j \<and> j < length log \<longrightarrow> log ! i < log ! j)"
proof -
  have n: "unat (log ! j) = Suc j" if "j < length log" for j
  proof -
    have "Suc j < 18446744073709551616" using that assms(2) by simp
    then show ?thesis using u64_of_nat_Suc assms(1) that by simp
  qed
  then show ?thesis by (auto simp: word_less_nat_alt)
qed


lemma u64_dropped_cases:
  fixes seq last d d' :: u64
  assumes "d' = (if last > 0 \<and> seq > last + 1 then d + (seq - last - 1) else d)"
  shows "last = 0 \<longrightarrow> d' = d"
    and "0 < unat last \<and> unat last + 1 < unat seq \<longrightarrow>
           unat d' = (unat d + (unat seq - unat last - 1)) mod 2 ^ 64"
    and "unat seq \<le> unat last + 1 \<and> unat last < 2 ^ 64 - 1 \<longrightarrow> d' = d"
proof -
  show "last = 0 \<longrightarrow> d' = d" using assms by simp
  show "0 < unat last \<and> unat last + 1 < unat seq \<longrightarrow>
          unat d' = (unat d + (unat seq - unat last - 1)) mod 2 ^ 64"
  proof
    assume a: "0 < unat last \<and> unat last + 1 < unat seq"
    then have "0 < last" by (simp add: word_less_nat_alt)
    moreover have "last + 1 < seq" using a u64_gap(1) by blast
    ultimately have "d' = d + (seq - last - 1)" using assms by simp
    moreover have "unat (seq - last - 1) = unat seq - unat last - 1"
      using a u64_gap(2) by blast
    ultimately show "unat d' = (unat d + (unat seq - unat last - 1)) mod 2 ^ 64"
      by (simp add: unat_word_ariths)
  qed
  show "unat seq \<le> unat last + 1 \<and> unat last < 2 ^ 64 - 1 \<longrightarrow> d' = d"
  proof
    assume a: "unat seq \<le> unat last + 1 \<and> unat last < 2 ^ 64 - 1"
    then have "unat (last + 1) = unat last + 1" by (simp add: unat_plus_if')
    then have "\<not> last + 1 < seq" using a by (simp add: word_less_nat_alt)
    then show "d' = d" using assms by simp
  qed
qed


subsection \<open>One publish step, and runs of them\<close>

lemma barq_step_True:
  assumes "barq_step w h x = (True, w', h')"
  shows "bw_frame_count w' = bw_frame_count w + 1"
    and "bw_initialized w'"
    and "bw_max_size w' = bw_max_size w"
    and "bq_front_idx h' = 1 - bq_front_idx h"
    and "barq_slot_seq h' (bq_front_idx h') = bw_frame_count w + 1"
    and "barq_slot_len h' (bq_front_idx h') = barq_op_size x"
  using assms
  by (cases x; simp add: barq_write_def barq_commit_def barq_store_meta_def
      barq_slot_seq_def barq_slot_len_def Let_def split: if_splits; force)+

lemma barq_step_False:
  assumes "barq_step w h x = (False, w', h')"
  shows "w' = w \<and> h' = h"
  using assms
  by (cases x; simp add: barq_write_def barq_commit_def Let_def split: if_splits)

lemma barq_step_succeeds:
  assumes "bw_initialized w" and "barq_op_size x \<le> bw_max_size w"
  shows "fst (barq_step w h x) = True"
  using assms
  by (cases x; simp add: barq_write_def barq_commit_def Let_def not_less)

lemma barq_step_other_slot:
  assumes "barq_step w h x = (True, w', h')" and "bq_front_idx h < 2"
  shows "barq_slot_len h' (bq_front_idx h) = barq_slot_len h (bq_front_idx h)"
    and "barq_slot_seq h' (bq_front_idx h) = barq_slot_seq h (bq_front_idx h)"
    and "bq_front_idx h' < 2"
    and "bq_front_idx h' \<noteq> bq_front_idx h"
proof -
  have f: "bq_front_idx h = 0 \<or> bq_front_idx h = 1"
  proof -
    have "unat (bq_front_idx h) < 2" using assms(2) by (simp add: word_less_nat_alt)
    then have "unat (bq_front_idx h) = unat (0::u32) \<or> unat (bq_front_idx h) = unat (1::u32)"
      by auto
    then show ?thesis by (simp only: word_unat_eq_iff)
  qed
  show "barq_slot_len h' (bq_front_idx h) = barq_slot_len h (bq_front_idx h)"
    "barq_slot_seq h' (bq_front_idx h) = barq_slot_seq h (bq_front_idx h)"
    "bq_front_idx h' < 2" "bq_front_idx h' \<noteq> bq_front_idx h"
    using assms(1) f
    by (cases x; auto simp: barq_write_def barq_commit_def barq_store_meta_def
        barq_slot_seq_def barq_slot_len_def Let_def split: if_splits)+
qed

lemma barq_run_log:
  "barq_run w h ops = (w', h', log) \<Longrightarrow>
     (\<forall>j<length log. log ! j = bw_frame_count w + of_nat (Suc j))
     \<and> bw_frame_count w' = bw_frame_count w + of_nat (length log)"
proof (induction ops arbitrary: w h w' h' log)
  case Nil
  then show ?case by simp
next
  case (Cons x xs)
  obtain ok w1 h1 where st: "barq_step w h x = (ok, w1, h1)"
    by (cases "barq_step w h x") auto
  obtain w2 h2 log2 where rn: "barq_run w1 h1 xs = (w2, h2, log2)"
    by (cases "barq_run w1 h1 xs") auto
  note ih = Cons.IH [OF rn]
  show ?case
  proof (cases ok)
    case True
    have st': "barq_step w h x = (True, w1, h1)" using st True by simp
    have fc: "bw_frame_count w1 = bw_frame_count w + 1"
      and sq: "barq_slot_seq h1 (bq_front_idx h1) = bw_frame_count w + 1"
      using barq_step_True [OF st'] by simp_all
    have lg: "log = (bw_frame_count w + 1) # log2" and w': "w' = w2"
      using Cons.prems st rn True sq by simp_all
    have "log ! j = bw_frame_count w + of_nat (Suc j)" if "j < length log" for j
    proof (cases j)
      case 0
      then show ?thesis by (simp add: lg)
    next
      case (Suc k)
      then have "k < length log2" using that lg by simp
      then show ?thesis using ih fc Suc lg by (simp add: add.assoc)
    qed
    moreover have "bw_frame_count w' = bw_frame_count w + of_nat (length log)"
      using ih fc lg w' by (simp add: add.assoc)
    ultimately show ?thesis by blast
  next
    case False
    have st': "barq_step w h x = (False, w1, h1)" using st False by simp
    have "w1 = w \<and> h1 = h" using barq_step_False [OF st'] .
    moreover have "log = log2" and "w' = w2" using Cons.prems st rn False by simp_all
    ultimately show ?thesis using ih by simp
  qed
qed

lemma barq_run_all_succeed:
  "bw_initialized w \<Longrightarrow> \<forall>x\<in>set ops. barq_op_size x \<le> bw_max_size w \<Longrightarrow>
     length (snd (snd (barq_run w h ops))) = length ops"
proof (induction ops arbitrary: w h)
  case Nil
  then show ?case by simp
next
  case (Cons x xs)
  obtain ok w1 h1 where st: "barq_step w h x = (ok, w1, h1)"
    by (cases "barq_step w h x") auto
  have ok: "ok" using barq_step_succeeds [of w x h] Cons.prems st by simp
  have st': "barq_step w h x = (True, w1, h1)" using st ok by simp
  have "bw_initialized w1" and "bw_max_size w1 = bw_max_size w"
    using barq_step_True [OF st'] by simp_all
  then have "length (snd (snd (barq_run w1 h1 xs))) = length xs"
    using Cons.IH [of w1 h1] Cons.prems by simp
  then show ?case using st ok by (cases "barq_run w1 h1 xs") simp
qed

lemma barq_init_fresh:
  assumes "barq_init (barq_Writer_ctor name max_size hp) env now W = (True, w, W')"
    and "shm_at W' (bw_ptr w) = Some h"
  shows "bw_initialized w" and "bw_frame_count w = 0" and "bq_front_idx h = 0"
    and "bq_seq0 h = 0" and "bq_seq1 h = 0"
  using assms
  by (auto simp: barq_init_def barq_Writer_ctor_def shm_unlink_def shm_open_creat_def
      shm_at_def barq_init_region_def Let_def split: if_splits option.splits prod.splits)


lemma casir_step_True:
  assumes "casir_step w h x = (True, w', h')"
  shows "cw_frame_count w' = cw_frame_count w + 1"
    and "cw_is_initialized w'"
    and "cw_max_size w' = cw_max_size w"
    and "cs_front_idx h' = 1 - cs_front_idx h"
    and "casir_slot_frame h' (cs_front_idx h') = cw_frame_count w + 1"
    and "cs_published_length h' = casir_op_size x"
  using assms
  by (cases x; simp add: casir_write_def casir_writeZeroCopy_def casir_commitWrite_def
      casir_publish_def casir_slot_frame_def Let_def split: if_splits; force)+

lemma casir_step_False:
  assumes "casir_step w h x = (False, w', h')"
  shows "w' = w \<and> h' = h"
  using assms
  by (cases x; simp add: casir_write_def casir_writeZeroCopy_def casir_commitWrite_def
      Let_def split: if_splits)

lemma casir_step_succeeds:
  assumes "cw_is_initialized w" and "casir_op_size x \<le> cw_max_size w"
  shows "fst (casir_step w h x) = True"
  using assms
  by (cases x; simp add: casir_write_def casir_writeZeroCopy_def casir_commitWrite_def
      Let_def not_less)

lemma casir_run_log:
  "casir_run w h ops = (w', h', log) \<Longrightarrow>
     (\<forall>j<length log. log ! j = cw_frame_count w + of_nat (Suc j))
     \<and> cw_frame_count w' = cw_frame_count w + of_nat (length log)"
proof (induction ops arbitrary: w h w' h' log)
  case Nil
  then show ?case by simp
next
  case (Cons x xs)
  obtain ok w1 h1 where st: "casir_step w h x = (ok, w1, h1)"
    by (cases "casir_step w h x") auto
  obtain w2 h2 log2 where rn: "casir_run w1 h1 xs = (w2, h2, log2)"
    by (cases "casir_run w1 h1 xs") auto
  note ih = Cons.IH [OF rn]
  show ?case
  proof (cases ok)
    case True
    have st': "casir_step w h x = (True, w1, h1)" using st True by simp
    have fc: "cw_frame_count w1 = cw_frame_count w + 1"
      and sq: "casir_slot_frame h1 (cs_front_idx h1) = cw_frame_count w + 1"
      using casir_step_True [OF st'] by simp_all
    have lg: "log = (cw_frame_count w + 1) # log2" and w': "w' = w2"
      using Cons.prems st rn True sq by simp_all
    have "log ! j = cw_frame_count w + of_nat (Suc j)" if "j < length log" for j
    proof (cases j)
      case 0
      then show ?thesis by (simp add: lg)
    next
      case (Suc k)
      then have "k < length log2" using that lg by simp
      then show ?thesis using ih fc Suc lg by (simp add: add.assoc)
    qed
    moreover have "cw_frame_count w' = cw_frame_count w + of_nat (length log)"
      using ih fc lg w' by (simp add: add.assoc)
    ultimately show ?thesis by blast
  next
    case False
    have st': "casir_step w h x = (False, w1, h1)" using st False by simp
    have "w1 = w \<and> h1 = h" using casir_step_False [OF st'] .
    moreover have "log = log2" and "w' = w2" using Cons.prems st rn False by simp_all
    ultimately show ?thesis using ih by simp
  qed
qed

lemma casir_run_all_succeed:
  "cw_is_initialized w \<Longrightarrow> \<forall>x\<in>set ops. casir_op_size x \<le> cw_max_size w \<Longrightarrow>
     length (snd (snd (casir_run w h ops))) = length ops"
proof (induction ops arbitrary: w h)
  case Nil
  then show ?case by simp
next
  case (Cons x xs)
  obtain ok w1 h1 where st: "casir_step w h x = (ok, w1, h1)"
    by (cases "casir_step w h x") auto
  have ok: "ok" using casir_step_succeeds [of w x h] Cons.prems st by simp
  have st': "casir_step w h x = (True, w1, h1)" using st ok by simp
  have "cw_is_initialized w1" and "cw_max_size w1 = cw_max_size w"
    using casir_step_True [OF st'] by simp_all
  then have "length (snd (snd (casir_run w1 h1 xs))) = length xs"
    using Cons.IH [of w1 h1] Cons.prems by simp
  then show ?case using st ok by (cases "casir_run w1 h1 xs") simp
qed

lemma casir_init_fresh:
  assumes "casir_init (casir_Writer_ctor name max_size cfg detected) env W = Some (True, w, W')"
    and "shm_at W' (cw_shm_ptr w) = Some h"
  shows "cw_is_initialized w" and "cw_frame_count w = 0" and "cs_front_idx h = 0"
    and "cs_frame0 h = 0" and "cs_frame1 h = 0"
  using assms
  by (auto simp: casir_init_def casir_Writer_ctor_def shm_unlink_def shm_open_creat_def
      shm_at_def casir_init_region_def Let_def
      split: if_splits option.splits prod.splits)

subsection \<open>The readers\<close>

lemma barq_getLatest_Some:
  assumes "barq_getLatest rd h sz ts = (Some p, sz', ts', rd')"
  shows "br_last_seq rd' = barq_slot_seq h (bq_front_idx h)"
    and "barq_slot_seq h (bq_front_idx h) \<noteq> br_last_seq rd"
    and "br_dropped rd' =
          (if br_last_seq rd > 0 \<and> barq_slot_seq h (bq_front_idx h) > br_last_seq rd + 1
           then br_dropped rd + (barq_slot_seq h (bq_front_idx h) - br_last_seq rd - 1)
           else br_dropped rd)"
  using assms
  by (auto simp: barq_getLatest_def barq_slot_seq_def Let_def split: if_splits)

lemma casir_read_True:
  assumes "casir_read rd h data sz = (True, data', sz', rd')"
  shows "cr_last_frame rd' = casir_slot_frame h (cs_front_idx h)"
    and "casir_slot_frame h (cs_front_idx h) \<noteq> cr_last_frame rd"
    and "cr_dropped_frames rd' =
          (if cr_last_frame rd > 0 \<and> casir_slot_frame h (cs_front_idx h) > cr_last_frame rd + 1
           then cr_dropped_frames rd + (casir_slot_frame h (cs_front_idx h) - cr_last_frame rd - 1)
           else cr_dropped_frames rd)"
    and "sz' = cs_published_length h" and "sz' \<le> cr_max_size rd"
  using assms
  by (auto simp: casir_read_def casir_slot_frame_def Let_def split: if_splits)

lemma barq_getLatest_new:
  assumes "br_initialized rd" and "barq_slot_seq h (bq_front_idx h) \<noteq> br_last_seq rd"
  shows "fst (barq_getLatest rd h sz ts) \<noteq> None"
  using assms by (auto simp: barq_getLatest_def barq_slot_seq_def Let_def)

lemma casir_read_new:
  assumes "cr_is_initialized rd" and "casir_slot_frame h (cs_front_idx h) \<noteq> cr_last_frame rd"
    and "cs_published_length h \<le> cr_max_size rd"
  shows "fst (casir_read rd h data sz)"
  using assms by (auto simp: casir_read_def casir_slot_frame_def Let_def)

subsection \<open>Evaluating the concrete configurations\<close>

lemmas barq_eval = barq_started_def barq_init_def barq_Writer_ctor_def env_all_ok_def
  shm_empty_world_def shm_unlink_def shm_open_creat_def shm_at_def Let_def alignUp_def
  barq_sizeof_Header_def barq_HUGE_PAGE_def barq_init_region_def barq_write_def
  barq_commit_def barq_store_meta_def memcpy_def barq_slot_seq_def barq_slot_len_def
  barq_attached_def barq_Reader_ctor_def barq_getLatest_def

lemmas casir_eval = casir_started_def casir_init_def casir_Writer_ctor_def casir_env_all_ok_def
  no_huge_pages_def portable_def default_cache_info_def casir_allocateMemory_def
  shm_empty_world_def shm_unlink_def shm_open_creat_def shm_at_def Let_def alignToCacheLine_def
  CACHE_LINE_SIZE_def casir_sizeof_Header_def casir_init_region_def casir_write_def
  casir_commitWrite_def casir_writeZeroCopy_def casir_publish_def memcpy_def
  casir_slot_frame_def casir_slot_len_def casir_attached_def casir_Reader_ctor_def
  casir_read_def shouldUseHugePages_def


subsection \<open>C1: sequence numbers of successive publishes\<close>

lemma barq_started_facts:
  "bw_initialized (fst (barq_started ''/sensor'' 1024 0))"
  "bw_frame_count (fst (barq_started ''/sensor'' 1024 0)) = 0"
  "bw_max_size (fst (barq_started ''/sensor'' 1024 0)) = 1024"
  by (simp_all add: barq_eval)

lemma barq_example_run:
  "barq_init (barq_Writer_ctor ''/sensor'' 1024 False) env_all_ok 0 shm_empty_world
     = (True, fst (barq_started ''/sensor'' 1024 0),
        snd (snd (barq_init (barq_Writer_ctor ''/sensor'' 1024 False) env_all_ok 0
                    shm_empty_world)))"
  "shm_at (snd (snd (barq_init (barq_Writer_ctor ''/sensor'' 1024 False) env_all_ok 0
                       shm_empty_world)))
     (bw_ptr (fst (barq_started ''/sensor'' 1024 0))) = Some (snd (barq_started ''/sensor'' 1024 0))"
  "snd (snd (barq_run (fst (barq_started ''/sensor'' 1024 0))
      (snd (barq_started ''/sensor'' 1024 0)) example_barq_ops)) = [1, 2, 3]"
  by (simp_all add: barq_eval example_barq_ops_def)

lemma casir_example_run:
  "casir_init (casir_Writer_ctor ''/sensor'' 1024 portable (default_cache_info 4))
      casir_env_all_ok shm_empty_world
     = Some (True, fst (casir_started ''/sensor'' 1024),
        snd (snd (the (casir_init (casir_Writer_ctor ''/sensor'' 1024 portable
                    (default_cache_info 4)) casir_env_all_ok shm_empty_world))))"
  "shm_at (snd (snd (the (casir_init (casir_Writer_ctor ''/sensor'' 1024 portable
                    (default_cache_info 4)) casir_env_all_ok shm_empty_world))))
     (cw_shm_ptr (fst (casir_started ''/sensor'' 1024))) = Some (snd (casir_started ''/sensor'' 1024))"
  "snd (snd (casir_run (fst (casir_started ''/sensor'' 1024))
      (snd (casir_started ''/sensor'' 1024)) example_casir_ops)) = [1, 2, 3]"
  by (simp_all add: casir_eval example_casir_ops_def)

text \<open>
  C1 (as stated, refuted): every publish would store a sequence number strictly greater
  than all stored before. The sequence number is the writer's \<open>uint64_t frame_count_\<close>
  after \<open>++frame_count_\<close>, which wraps: of \<open>2\<^sup>6\<^sup>4\<close> successful publishes on a
  fresh basic-tier writer the first stores 1 and the last stores 0.
\<close>

theorem C1_wraparound_counterexample:
  "(case barq_started ''/sensor'' 1024 0 of
      (w, h) \<Rightarrow>
        (case barq_run w h (replicate (2 ^ 64) (BCommit 0 0)) of
           (w', h', log) \<Rightarrow>
             length log = 2 ^ 64 \<and> log ! 0 = 1 \<and> log ! (2 ^ 64 - 1) = 0
             \<and> \<not> log ! 0 < log ! (2 ^ 64 - 1)))"
proof -
  define N :: nat where "N = 2 ^ 64"
  define ops where "ops = replicate N (BCommit 0 0)"
  obtain w h where s: "barq_started ''/sensor'' 1024 0 = (w, h)"
    by (cases "barq_started ''/sensor'' 1024 0") auto
  have i: "bw_initialized w" "bw_frame_count w = 0" "bw_max_size w = 1024"
    using barq_started_facts s by simp_all
  obtain w' h' log where r: "barq_run w h ops = (w', h', log)"
    by (cases "barq_run w h ops") auto
  have "\<forall>x\<in>set ops. barq_op_size x \<le> bw_max_size w"
    by (simp add: ops_def i)
  then have len: "length log = N"
    using barq_run_all_succeed [of w ops h] i(1) r by (simp add: ops_def)
  have nth: "\<forall>j<length log. log ! j = of_nat (Suc j)"
    using barq_run_log [OF r] i(2) by simp
  have Npos: "0 < N" and SucN: "Suc (N - 1) = N" by (simp_all add: N_def)
  have first: "log ! 0 = 1" using nth len Npos by simp
  have "log ! (N - 1) = of_nat (Suc (N - 1))" using nth len Npos by simp
  then have last: "log ! (N - 1) = 0"
    unfolding SucN by (simp add: N_def)
  have "\<not> log ! 0 < log ! (N - 1)" unfolding first last by simp
  then have "length log = N \<and> log ! 0 = 1 \<and> log ! (N - 1) = 0 \<and> \<not> log ! 0 < log ! (N - 1)"
    using len first last by blast
  then show ?thesis
    unfolding s prod.case N_def [symmetric] ops_def [symmetric] r by simp
qed

text \<open>
  C1 (amended): for a writer of either tier that has been constructed and successfully
  initialised, and any run of publish calls (\<open>write\<close>, \<open>commit\<close>; in the cache-tuned
  tier also \<open>writeZeroCopy\<close>) in which fewer than \<open>2\<^sup>6\<^sup>4\<close> calls succeed: the \<open>j\<close>-th
  successful publish (counting from 0) stores sequence number \<open>j + 1\<close>, so the first
  stores 1, each stores its predecessor's plus one, and each is strictly greater than
  every sequence number stored before it. \<open>log\<close> lists the stored sequence numbers in
  order.
\<close>

theorem C1_sequence_numbers:
  "(barq_init (barq_Writer_ctor name max_size hp) env now W = (True, w, W')
      \<and> shm_at W' (bw_ptr w) = Some h
      \<and> barq_run w h ops = (w', h', log) \<and> length log < 2 ^ 64
    \<longrightarrow> (\<forall>j<length log. unat (log ! j) = Suc j)
        \<and> (\<forall>i j. i < j \<and> j < length log \<longrightarrow> log ! i < log ! j))
   \<and> (casir_init (casir_Writer_ctor cname cmax_size cfg detected) cenv CW = Some (True, cw, CW')
      \<and> shm_at CW' (cw_shm_ptr cw) = Some ch
      \<and> casir_run cw ch cops = (cw', ch', clog) \<and> length clog < 2 ^ 64
    \<longrightarrow> (\<forall>j<length clog. unat (clog ! j) = Suc j)
        \<and> (\<forall>i j. i < j \<and> j < length clog \<longrightarrow> clog ! i < clog ! j))"
proof (intro conjI impI)
  assume a: "barq_init (barq_Writer_ctor name max_size hp) env now W = (True, w, W')
      \<and> shm_at W' (bw_ptr w) = Some h
      \<and> barq_run w h ops = (w', h', log) \<and> length log < 2 ^ 64"
  then have "bw_frame_count w = 0" using barq_init_fresh(2) by blast
  moreover have "\<forall>j<length log. log ! j = bw_frame_count w + of_nat (Suc j)"
    using a barq_run_log by blast
  ultimately have "\<forall>j<length log. log ! j = of_nat (Suc j)" by simp
  then have r: "(\<forall>j<length log. unat (log ! j) = Suc j)
         \<and> (\<forall>i j. i < j \<and> j < length log \<longrightarrow> log ! i < log ! j)"
    using a u64_log_numbered by blast
  show "\<forall>j<length log. unat (log ! j) = Suc j" using r by blast
  show "\<forall>i j. i < j \<and> j < length log \<longrightarrow> log ! i < log ! j" using r by blast
next
  assume a: "casir_init (casir_Writer_ctor cname cmax_size cfg detected) cenv CW
        = Some (True, cw, CW')
      \<and> shm_at CW' (cw_shm_ptr cw) = Some ch
      \<and> casir_run cw ch cops = (cw', ch', clog) \<and> length clog < 2 ^ 64"
  then have "cw_frame_count cw = 0" using casir_init_fresh(2) by blast
  moreover have "\<forall>j<length clog. clog ! j = cw_frame_count cw + of_nat (Suc j)"
    using a casir_run_log by blast
  ultimately have "\<forall>j<length clog. clog ! j = of_nat (Suc j)" by simp
  then have r: "(\<forall>j<length clog. unat (clog ! j) = Suc j)
         \<and> (\<forall>i j. i < j \<and> j < length clog \<longrightarrow> clog ! i < clog ! j)"
    using a u64_log_numbered by blast
  show "\<forall>j<length clog. unat (clog ! j) = Suc j" using r by blast
  show "\<forall>i j. i < j \<and> j < length clog \<longrightarrow> clog ! i < clog ! j" using r by blast
qed

text \<open>
  Witness for C1: both tiers on the four example calls, of which three succeed; the
  stored sequence numbers are 1, 2, 3.
\<close>

theorem C1_sequence_numbers_witness:
  "(case barq_started ''/sensor'' 1024 0 of
      (w, h) \<Rightarrow>
        (case barq_run w h example_barq_ops of
           (w', h', log) \<Rightarrow>
             log = [1, 2, 3] \<and> unat (log ! 0) = 1 \<and> unat (log ! 2) = 3 \<and> log ! 0 < log ! 2))
   \<and> (case casir_started ''/sensor'' 1024 of
      (w, h) \<Rightarrow>
        (case casir_run w h example_casir_ops of
           (w', h', log) \<Rightarrow>
             log = [1, 2, 3] \<and> unat (log ! 0) = 1 \<and> unat (log ! 2) = 3 \<and> log ! 0 < log ! 2))"
proof -
  let ?i = "barq_init (barq_Writer_ctor ''/sensor'' 1024 False) env_all_ok 0 shm_empty_world"
  let ?w = "fst (barq_started ''/sensor'' 1024 0)"
  let ?h = "snd (barq_started ''/sensor'' 1024 0)"
  let ?r = "barq_run ?w ?h example_barq_ops"
  let ?ci = "casir_init (casir_Writer_ctor ''/sensor'' 1024 portable (default_cache_info 4))
      casir_env_all_ok shm_empty_world"
  let ?cw = "fst (casir_started ''/sensor'' 1024)"
  let ?ch = "snd (casir_started ''/sensor'' 1024)"
  let ?cr = "casir_run ?cw ?ch example_casir_ops"
  have r: "?r = (fst ?r, fst (snd ?r), snd (snd ?r))"
    and cr: "?cr = (fst ?cr, fst (snd ?cr), snd (snd ?cr))" by simp_all
  have lg: "snd (snd ?r) = [1, 2, 3]" by (rule barq_example_run(3))
  have clg: "snd (snd ?cr) = [1, 2, 3]" by (rule casir_example_run(3))
  note inst = C1_sequence_numbers [where name = "''/sensor''" and max_size = 1024 and hp = False
        and env = env_all_ok and now = 0 and W = shm_empty_world and w = ?w
        and W' = "snd (snd ?i)" and h = ?h and ops = example_barq_ops
        and w' = "fst ?r" and h' = "fst (snd ?r)" and log = "snd (snd ?r)"
        and cname = "''/sensor''" and cmax_size = 1024 and cfg = portable
        and detected = "default_cache_info 4" and cenv = casir_env_all_ok
        and CW = shm_empty_world and cw = ?cw and CW' = "snd (snd (the ?ci))" and ch = ?ch
        and cops = example_casir_ops and cw' = "fst ?cr" and ch' = "fst (snd ?cr)"
        and clog = "snd (snd ?cr)"]
  have "(\<forall>j<length (snd (snd ?r)). unat (snd (snd ?r) ! j) = Suc j)
        \<and> (\<forall>i j. i < j \<and> j < length (snd (snd ?r)) \<longrightarrow> snd (snd ?r) ! i < snd (snd ?r) ! j)"
    using inst barq_example_run(1,2) r lg by simp
  then have b: "unat (snd (snd ?r) ! 0) = 1 \<and> unat (snd (snd ?r) ! 2) = 3
      \<and> snd (snd ?r) ! 0 < snd (snd ?r) ! 2"
    unfolding lg by simp
  have "(\<forall>j<length (snd (snd ?cr)). unat (snd (snd ?cr) ! j) = Suc j)
        \<and> (\<forall>i j. i < j \<and> j < length (snd (snd ?cr)) \<longrightarrow> snd (snd ?cr) ! i < snd (snd ?cr) ! j)"
    using inst casir_example_run(1,2) cr clg by simp
  then have c: "unat (snd (snd ?cr) ! 0) = 1 \<and> unat (snd (snd ?cr) ! 2) = 3
      \<and> snd (snd ?cr) ! 0 < snd (snd ?cr) ! 2"
    unfolding clg by simp
  show ?thesis using b c lg clg by (simp add: case_prod_unfold)
qed

subsection \<open>C2: the reader's dropped counter\<close>

lemma example_after_eval:
  "barq_slot_seq (example_barq_after [1, 2, 3]) (bq_front_idx (example_barq_after [1, 2, 3])) = 3"
  "casir_slot_frame (example_casir_after [1, 2, 3]) (cs_front_idx (example_casir_after [1, 2, 3])) = 3"
  "cs_published_length (example_casir_after [1, 2, 3]) = 8"
  "br_last_seq example_barq_reader_at_1 = 1" "br_dropped example_barq_reader_at_1 = 0"
  "br_initialized example_barq_reader_at_1"
  "cr_last_frame example_casir_reader_at_1 = 1" "cr_dropped_frames example_casir_reader_at_1 = 0"
  "cr_is_initialized example_casir_reader_at_1" "cr_max_size example_casir_reader_at_1 = 1024"
  by (simp_all add: example_barq_after_def example_casir_after_def example_barq_reader_at_1_def
      example_casir_reader_at_1_def barq_eval casir_eval)

text \<open>
  C2 (as stated, refuted): on the very first non-null return, with \<open>last\<close> still 0, the
  dropped counter would grow by \<open>seq - last - 1\<close>. A basic-tier reader that attaches
  after three publishes gets frame 3 from its first \<open>getLatest\<close>, and its dropped counter
  stays 0 instead of becoming 2: the source adds only under \<open>last_seq_ > 0\<close>.
\<close>

theorem C2_first_return_counterexample:
  "(case barq_getLatest (barq_attached ''/sensor'' 1024) (example_barq_after [1, 2, 3]) 0 0 of
      (p, sz, ts, rd') \<Rightarrow>
        p \<noteq> None \<and> br_last_seq (barq_attached ''/sensor'' 1024) = 0 \<and> br_last_seq rd' = 3
        \<and> br_dropped (barq_attached ''/sensor'' 1024) = 0 \<and> br_dropped rd' = 0
        \<and> br_dropped rd' \<noteq> br_dropped (barq_attached ''/sensor'' 1024) + (3 - 0 - 1))"
  by (simp add: example_barq_after_def barq_eval)

text \<open>
  C2 (amended): for every call of the basic tier's \<open>getLatest\<close> that returns a frame and
  every call of the cache-tuned tier's \<open>read\<close> that returns true, with \<open>seq\<close> the
  sequence of the front slot and \<open>last\<close> the reader's cursor before the call: the
  cursor becomes \<open>seq\<close>, which differs from \<open>last\<close>; if \<open>last\<close> is 0 (the first
  return after the reader attaches) the dropped counter is unchanged whatever \<open>seq\<close>
  is; if \<open>last > 0\<close> and \<open>seq > last + 1\<close> it grows by exactly \<open>seq - last - 1\<close>
  (the counter is 64-bit); and if \<open>seq \<le> last + 1\<close>, with \<open>last\<close> below the largest
  64-bit value, it is unchanged.
\<close>

theorem C2_dropped_counter:
  "(barq_getLatest rd h sz ts = (Some p, sz', ts', rd') \<longrightarrow>
      br_last_seq rd' = barq_slot_seq h (bq_front_idx h)
      \<and> barq_slot_seq h (bq_front_idx h) \<noteq> br_last_seq rd
      \<and> (br_last_seq rd = 0 \<longrightarrow> br_dropped rd' = br_dropped rd)
      \<and> (0 < unat (br_last_seq rd)
           \<and> unat (br_last_seq rd) + 1 < unat (barq_slot_seq h (bq_front_idx h)) \<longrightarrow>
          unat (br_dropped rd') =
            (unat (br_dropped rd)
              + (unat (barq_slot_seq h (bq_front_idx h)) - unat (br_last_seq rd) - 1)) mod 2 ^ 64)
      \<and> (unat (barq_slot_seq h (bq_front_idx h)) \<le> unat (br_last_seq rd) + 1
           \<and> unat (br_last_seq rd) < 2 ^ 64 - 1 \<longrightarrow>
          br_dropped rd' = br_dropped rd))
   \<and> (casir_read crd ch data csz = (True, data', csz', crd') \<longrightarrow>
      cr_last_frame crd' = casir_slot_frame ch (cs_front_idx ch)
      \<and> casir_slot_frame ch (cs_front_idx ch) \<noteq> cr_last_frame crd
      \<and> (cr_last_frame crd = 0 \<longrightarrow> cr_dropped_frames crd' = cr_dropped_frames crd)
      \<and> (0 < unat (cr_last_frame crd)
           \<and> unat (cr_last_frame crd) + 1 < unat (casir_slot_frame ch (cs_front_idx ch)) \<longrightarrow>
          unat (cr_dropped_frames crd') =
            (unat (cr_dropped_frames crd)
              + (unat (casir_slot_frame ch (cs_front_idx ch)) - unat (cr_last_frame crd) - 1))
            mod 2 ^ 64)
      \<and> (unat (casir_slot_frame ch (cs_front_idx ch)) \<le> unat (cr_last_frame crd) + 1
           \<and> unat (cr_last_frame crd) < 2 ^ 64 - 1 \<longrightarrow>
          cr_dropped_frames crd' = cr_dropped_frames crd))"
proof (intro conjI impI)
  assume a: "barq_getLatest rd h sz ts = (Some p, sz', ts', rd')"
  note g = barq_getLatest_Some [OF a]
  note c = u64_dropped_cases [OF g(3)]
  show "br_last_seq rd' = barq_slot_seq h (bq_front_idx h)" by (rule g(1))
  show "barq_slot_seq h (bq_front_idx h) \<noteq> br_last_seq rd" by (rule g(2))
  show "br_dropped rd' = br_dropped rd" if "br_last_seq rd = 0" using c(1) that by blast
  show "unat (br_dropped rd') =
            (unat (br_dropped rd)
              + (unat (barq_slot_seq h (bq_front_idx h)) - unat (br_last_seq rd) - 1)) mod 2 ^ 64"
    if "0 < unat (br_last_seq rd)
           \<and> unat (br_last_seq rd) + 1 < unat (barq_slot_seq h (bq_front_idx h))"
    using c(2) that by blast
  show "br_dropped rd' = br_dropped rd"
    if "unat (barq_slot_seq h (bq_front_idx h)) \<le> unat (br_last_seq rd) + 1
           \<and> unat (br_last_seq rd) < 2 ^ 64 - 1"
    using c(3) that by blast
next
  assume a: "casir_read crd ch data csz = (True, data', csz', crd')"
  note g = casir_read_True [OF a]
  note c = u64_dropped_cases [OF g(3)]
  show "cr_last_frame crd' = casir_slot_frame ch (cs_front_idx ch)" by (rule g(1))
  show "casir_slot_frame ch (cs_front_idx ch) \<noteq> cr_last_frame crd" by (rule g(2))
  show "cr_dropped_frames crd' = cr_dropped_frames crd" if "cr_last_frame crd = 0"
    using c(1) that by blast
  show "unat (cr_dropped_frames crd') =
            (unat (cr_dropped_frames crd)
              + (unat (casir_slot_frame ch (cs_front_idx ch)) - unat (cr_last_frame crd) - 1))
            mod 2 ^ 64"
    if "0 < unat (cr_last_frame crd)
           \<and> unat (cr_last_frame crd) + 1 < unat (casir_slot_frame ch (cs_front_idx ch))"
    using c(2) that by blast
  show "cr_dropped_frames crd' = cr_dropped_frames crd"
    if "unat (casir_slot_frame ch (cs_front_idx ch)) \<le> unat (cr_last_frame crd) + 1
           \<and> unat (cr_last_frame crd) < 2 ^ 64 - 1"
    using c(3) that by blast
qed

text \<open>
  Witness for C2: in each tier a reader that has observed frame 1 reads again after
  two more publishes; it gets frame 3 and its dropped counter goes from 0 to 1.
\<close>

theorem C2_dropped_counter_witness:
  "(case barq_getLatest example_barq_reader_at_1 (example_barq_after [1, 2, 3]) 0 0 of
      (p, sz, ts, rd') \<Rightarrow> p \<noteq> None \<and> br_last_seq rd' = 3 \<and> unat (br_dropped rd') = 1)
   \<and> (case casir_read example_casir_reader_at_1 (example_casir_after [1, 2, 3])
             (replicate 16 0) 0 of
      (ok, data', sz', rd') \<Rightarrow> ok \<and> cr_last_frame rd' = 3 \<and> unat (cr_dropped_frames rd') = 1)"
proof -
  let ?g = "barq_getLatest example_barq_reader_at_1 (example_barq_after [1, 2, 3]) 0 0"
  let ?c = "casir_read example_casir_reader_at_1 (example_casir_after [1, 2, 3])
             (replicate 16 0) 0"
  have g1: "fst ?g \<noteq> None"
    by (rule barq_getLatest_new) (simp_all add: example_after_eval)
  then obtain p where p: "fst ?g = Some p" by blast
  have g: "?g = (Some p, fst (snd ?g), fst (snd (snd ?g)), snd (snd (snd ?g)))"
    using p by (simp add: prod_eq_iff)
  have c1: "fst ?c"
    by (rule casir_read_new) (simp_all add: example_after_eval)
  have c: "?c = (True, fst (snd ?c), fst (snd (snd ?c)), snd (snd (snd ?c)))"
    using c1 by (simp add: prod_eq_iff)
  note inst = C2_dropped_counter [where rd = example_barq_reader_at_1
      and h = "example_barq_after [1, 2, 3]" and sz = 0 and ts = 0 and p = p
      and sz' = "fst (snd ?g)" and ts' = "fst (snd (snd ?g))" and rd' = "snd (snd (snd ?g))"
      and crd = example_casir_reader_at_1 and ch = "example_casir_after [1, 2, 3]"
      and data = "replicate 16 0" and csz = 0 and data' = "fst (snd ?c)"
      and csz' = "fst (snd (snd ?c))" and crd' = "snd (snd (snd ?c))"]
  have b: "br_last_seq (snd (snd (snd ?g))) = 3 \<and> unat (br_dropped (snd (snd (snd ?g)))) = 1"
    using inst g by (simp add: example_after_eval)
  have d: "cr_last_frame (snd (snd (snd ?c))) = 3
      \<and> unat (cr_dropped_frames (snd (snd (snd ?c)))) = 1"
    using inst c by (simp add: example_after_eval)
  show ?thesis using g1 c1 b d by (simp add: case_prod_unfold)
qed

subsection \<open>C3: what an immediate write updates\<close>

text \<open>
  C3 (the code departs from the claim): in both tiers a successful \<open>write\<close> stores the
  heartbeat and leaves total-writes and total-bytes as they were, while a successful
  \<open>commit\<close> (\<open>commitWrite\<close>) on the same state stores the heartbeat, adds 1 to
  total-writes and adds the size to total-bytes.
\<close>

theorem C3_write_leaves_counters:
  "(barq_write w h data sz now = (True, w1, h1) \<longrightarrow>
      bq_heartbeat_ns h1 = now \<and> bq_total_writes h1 = bq_total_writes h
      \<and> bq_total_bytes h1 = bq_total_bytes h)
   \<and> (barq_commit w h sz now = (True, w2, h2) \<longrightarrow>
      bq_heartbeat_ns h2 = now \<and> bq_total_writes h2 = bq_total_writes h + 1
      \<and> bq_total_bytes h2 = bq_total_bytes h + sz)
   \<and> (casir_write cw ch data sz now = (True, cw1, ch1) \<longrightarrow>
      cs_writer_heartbeat_ns ch1 = now \<and> cs_total_writes ch1 = cs_total_writes ch
      \<and> cs_total_bytes ch1 = cs_total_bytes ch)
   \<and> (casir_commitWrite cw ch sz now = (True, cw2, ch2) \<longrightarrow>
      cs_writer_heartbeat_ns ch2 = now \<and> cs_total_writes ch2 = cs_total_writes ch + 1
      \<and> cs_total_bytes ch2 = cs_total_bytes ch + sz)"
proof (intro conjI impI)
  assume a: "barq_write w h data sz now = (True, w1, h1)"
  then show "bq_heartbeat_ns h1 = now" "bq_total_writes h1 = bq_total_writes h"
    "bq_total_bytes h1 = bq_total_bytes h"
    by (auto simp: barq_write_def barq_store_meta_def Let_def split: if_splits)
next
  assume a: "barq_commit w h sz now = (True, w2, h2)"
  then show "bq_heartbeat_ns h2 = now" "bq_total_writes h2 = bq_total_writes h + 1"
    "bq_total_bytes h2 = bq_total_bytes h + sz"
    by (auto simp: barq_commit_def barq_store_meta_def Let_def split: if_splits)
next
  assume a: "casir_write cw ch data sz now = (True, cw1, ch1)"
  then show "cs_writer_heartbeat_ns ch1 = now" "cs_total_writes ch1 = cs_total_writes ch"
    "cs_total_bytes ch1 = cs_total_bytes ch"
    by (auto simp: casir_write_def casir_publish_def Let_def split: if_splits)
next
  assume a: "casir_commitWrite cw ch sz now = (True, cw2, ch2)"
  then show "cs_writer_heartbeat_ns ch2 = now" "cs_total_writes ch2 = cs_total_writes ch + 1"
    "cs_total_bytes ch2 = cs_total_bytes ch + sz"
    by (auto simp: casir_commitWrite_def casir_publish_def Let_def split: if_splits)
qed

text \<open>
  The failing input of C3: on a writer of capacity 1024 with a freshly initialised
  region, \<open>write\<close> of 4 bytes at clock value 77 returns true and stores the heartbeat,
  but total-writes and total-bytes stay 0, in both tiers; the commit path on the same
  state makes them 1 and 4.
\<close>

theorem C3_write_leaves_counters_witness:
  "(case barq_started ''/sensor'' 1024 0 of
      (w, h) \<Rightarrow>
        (case barq_write w h [1, 2, 3, 4] 4 77 of
           (ok, w', h') \<Rightarrow>
             ok \<and> bq_heartbeat_ns h' = 77 \<and> bq_total_writes h' = 0 \<and> bq_total_bytes h' = 0)
        \<and> (case barq_commit w h 4 77 of
           (ok, w', h') \<Rightarrow>
             ok \<and> bq_heartbeat_ns h' = 77 \<and> bq_total_writes h' = 1 \<and> bq_total_bytes h' = 4))
   \<and> (case casir_started ''/sensor'' 1024 of
      (w, h) \<Rightarrow>
        (case casir_write w h [1, 2, 3, 4] 4 77 of
           (ok, w', h') \<Rightarrow>
             ok \<and> cs_writer_heartbeat_ns h' = 77 \<and> cs_total_writes h' = 0
             \<and> cs_total_bytes h' = 0)
        \<and> (case casir_commitWrite w h 4 77 of
           (ok, w', h') \<Rightarrow>
             ok \<and> cs_writer_heartbeat_ns h' = 77 \<and> cs_total_writes h' = 1
             \<and> cs_total_bytes h' = 4))"
proof -
  let ?w = "fst (barq_started ''/sensor'' 1024 0)"
  let ?h = "snd (barq_started ''/sensor'' 1024 0)"
  let ?a = "barq_write ?w ?h [1, 2, 3, 4] 4 77"
  let ?b = "barq_commit ?w ?h 4 77"
  let ?cw = "fst (casir_started ''/sensor'' 1024)"
  let ?ch = "snd (casir_started ''/sensor'' 1024)"
  let ?c = "casir_write ?cw ?ch [1, 2, 3, 4] 4 77"
  let ?d = "casir_commitWrite ?cw ?ch 4 77"
  have e: "?a = (True, fst (snd ?a), snd (snd ?a))" "?b = (True, fst (snd ?b), snd (snd ?b))"
    "bq_total_writes ?h = 0" "bq_total_bytes ?h = 0"
    by (simp_all add: barq_eval)
  have ce: "?c = (True, fst (snd ?c), snd (snd ?c))" "?d = (True, fst (snd ?d), snd (snd ?d))"
    "cs_total_writes ?ch = 0" "cs_total_bytes ?ch = 0"
    by (simp_all add: casir_eval)
  note inst = C3_write_leaves_counters [where w = ?w and h = ?h and data = "[1, 2, 3, 4]"
      and sz = 4 and now = 77 and ?w1.0 = "fst (snd ?a)" and ?h1.0 = "snd (snd ?a)"
      and ?w2.0 = "fst (snd ?b)" and ?h2.0 = "snd (snd ?b)" and cw = ?cw and ch = ?ch
      and ?cw1.0 = "fst (snd ?c)" and ?ch1.0 = "snd (snd ?c)"
      and ?cw2.0 = "fst (snd ?d)" and ?ch2.0 = "snd (snd ?d)"]
  have r: "bq_heartbeat_ns (snd (snd ?a)) = 77 \<and> bq_total_writes (snd (snd ?a)) = 0
      \<and> bq_total_bytes (snd (snd ?a)) = 0
      \<and> bq_heartbeat_ns (snd (snd ?b)) = 77 \<and> bq_total_writes (snd (snd ?b)) = 1
      \<and> bq_total_bytes (snd (snd ?b)) = 4"
    using inst e by simp
  have cr: "cs_writer_heartbeat_ns (snd (snd ?c)) = 77 \<and> cs_total_writes (snd (snd ?c)) = 0
      \<and> cs_total_bytes (snd (snd ?c)) = 0
      \<and> cs_writer_heartbeat_ns (snd (snd ?d)) = 77 \<and> cs_total_writes (snd (snd ?d)) = 1
      \<and> cs_total_bytes (snd (snd ?d)) = 4"
    using inst ce by simp
  have "fst ?a" "fst ?b" "fst ?c" "fst ?d"
    using e(1,2) ce(1,2) by (simp_all add: prod_eq_iff)
  then show ?thesis using r cr by (simp add: case_prod_unfold)
qed

subsection \<open>C6: the payload length recorded for a slot\<close>

lemma u32_below_2:
  fixes x :: u32
  assumes "x < 2"
  shows "x = 0 \<or> x = 1"
proof -
  have "unat x < 2" using assms by (simp add: word_less_nat_alt)
  then have "unat x = unat (0::u32) \<or> unat x = unat (1::u32)" by auto
  then show ?thesis by (simp only: word_unat_eq_iff)
qed

lemma casir_step_other_slot:
  assumes "casir_step w h x = (True, w', h')" and "cs_front_idx h < 2"
  shows "casir_slot_frame h' (cs_front_idx h) = casir_slot_frame h (cs_front_idx h)"
    and "cs_front_idx h' < 2"
    and "cs_front_idx h' \<noteq> cs_front_idx h"
  using assms(1) u32_below_2 [OF assms(2)]
  by (cases x; auto simp: casir_write_def casir_writeZeroCopy_def casir_commitWrite_def
      casir_publish_def casir_slot_frame_def Let_def split: if_splits)+

text \<open>
  C6 (as stated, refuted): in both tiers the slot still holding the first frame would
  keep that frame's length. The cache-tuned header has a single \<open>published_length\<close>:
  after a 4-byte and then a 2-byte \<open>write\<close>, slot 1 still holds frame 1 and its four
  bytes, slot 0 is front, and the only length the header records is 2.
\<close>

theorem C6_shared_length_counterexample:
  "(case casir_started ''/sensor'' 1024 of
      (w, h) \<Rightarrow>
        (case casir_write w h [1, 2, 3, 4] 4 10 of
           (ok1, w1, h1) \<Rightarrow>
             (case casir_write w1 h1 [9, 9] 2 20 of
                (ok2, w2, h2) \<Rightarrow>
                  ok1 \<and> ok2 \<and> cs_front_idx h1 = 1 \<and> cs_front_idx h2 = 0
                  \<and> casir_slot_frame h2 1 = 1 \<and> take 4 (cs_buffer1 h2) = [1, 2, 3, 4]
                  \<and> casir_slot_len h2 1 = 2 \<and> casir_slot_len h2 1 \<noteq> 4)))"
  by (simp add: casir_eval)

text \<open>
  C6 (amended): in the basic tier each slot has its own length field, so of two
  successive successful publishes (from a region whose front index is 0 or 1) the
  second goes to the other slot, and the slot of the first keeps the first frame's
  sequence number and length while the new front slot records the second length. In the
  cache-tuned tier each slot has its own frame number and timestamp but the header has
  one \<open>published_length\<close> for both: after the second publish the slot of the first
  frame keeps its frame number, and the length recorded for either slot is the second
  frame's.
\<close>

theorem C6_slot_lengths:
  "(bq_front_idx h < 2 \<and> barq_step w h x1 = (True, w1, h1)
      \<and> barq_step w1 h1 x2 = (True, w2, h2) \<longrightarrow>
      bq_front_idx h2 \<noteq> bq_front_idx h1
      \<and> barq_slot_seq h2 (bq_front_idx h1) = barq_slot_seq h1 (bq_front_idx h1)
      \<and> barq_slot_len h2 (bq_front_idx h1) = barq_op_size x1
      \<and> barq_slot_len h2 (bq_front_idx h2) = barq_op_size x2)
   \<and> (cs_front_idx ch < 2 \<and> casir_step cw ch y1 = (True, cw1, ch1)
      \<and> casir_step cw1 ch1 y2 = (True, cw2, ch2) \<longrightarrow>
      cs_front_idx ch2 \<noteq> cs_front_idx ch1
      \<and> casir_slot_frame ch2 (cs_front_idx ch1) = casir_slot_frame ch1 (cs_front_idx ch1)
      \<and> casir_slot_len ch1 (cs_front_idx ch1) = casir_op_size y1
      \<and> casir_slot_len ch2 (cs_front_idx ch1) = casir_op_size y2
      \<and> casir_slot_len ch2 (cs_front_idx ch2) = casir_op_size y2)"
proof (intro conjI impI)
  assume a: "bq_front_idx h < 2 \<and> barq_step w h x1 = (True, w1, h1)
      \<and> barq_step w1 h1 x2 = (True, w2, h2)"
  then have s1: "barq_step w h x1 = (True, w1, h1)"
    and s2: "barq_step w1 h1 x2 = (True, w2, h2)" and f: "bq_front_idx h < 2" by simp_all
  have f1: "bq_front_idx h1 < 2" using barq_step_other_slot(3) [OF s1 f] .
  show "bq_front_idx h2 \<noteq> bq_front_idx h1" using barq_step_other_slot(4) [OF s2 f1] .
  show "barq_slot_seq h2 (bq_front_idx h1) = barq_slot_seq h1 (bq_front_idx h1)"
    using barq_step_other_slot(2) [OF s2 f1] .
  show "barq_slot_len h2 (bq_front_idx h1) = barq_op_size x1"
    using barq_step_other_slot(1) [OF s2 f1] barq_step_True(6) [OF s1] by simp
  show "barq_slot_len h2 (bq_front_idx h2) = barq_op_size x2"
    using barq_step_True(6) [OF s2] .
next
  assume a: "cs_front_idx ch < 2 \<and> casir_step cw ch y1 = (True, cw1, ch1)
      \<and> casir_step cw1 ch1 y2 = (True, cw2, ch2)"
  then have s1: "casir_step cw ch y1 = (True, cw1, ch1)"
    and s2: "casir_step cw1 ch1 y2 = (True, cw2, ch2)" and f: "cs_front_idx ch < 2"
    by simp_all
  have f1: "cs_front_idx ch1 < 2" using casir_step_other_slot(2) [OF s1 f] .
  show "cs_front_idx ch2 \<noteq> cs_front_idx ch1" using casir_step_other_slot(3) [OF s2 f1] .
  show "casir_slot_frame ch2 (cs_front_idx ch1) = casir_slot_frame ch1 (cs_front_idx ch1)"
    using casir_step_other_slot(1) [OF s2 f1] .
  show "casir_slot_len ch1 (cs_front_idx ch1) = casir_op_size y1"
    using casir_step_True(6) [OF s1] by (simp add: casir_slot_len_def)
  show "casir_slot_len ch2 (cs_front_idx ch1) = casir_op_size y2"
    using casir_step_True(6) [OF s2] by (simp add: casir_slot_len_def)
  show "casir_slot_len ch2 (cs_front_idx ch2) = casir_op_size y2"
    using casir_step_True(6) [OF s2] by (simp add: casir_slot_len_def)
qed

text \<open>
  Witness for C6: a 4-byte \<open>write\<close> and then a 2-byte \<open>commit\<close> (\<open>commitWrite\<close>) on the
  freshly initialised region of each tier. The basic tier's slot 1 records length 4 and
  slot 0 length 2; the cache-tuned tier records 2 for both.
\<close>

theorem C6_slot_lengths_witness:
  "(case barq_started ''/sensor'' 1024 0 of
      (w, h) \<Rightarrow>
        (case barq_step w h (BWrite [1, 2, 3, 4] 4 10) of
           (ok1, w1, h1) \<Rightarrow>
             (case barq_step w1 h1 (BCommit 2 20) of
                (ok2, w2, h2) \<Rightarrow>
                  ok1 \<and> ok2 \<and> barq_slot_len h2 1 = 4 \<and> barq_slot_len h2 0 = 2)))
   \<and> (case casir_started ''/sensor'' 1024 of
      (w, h) \<Rightarrow>
        (case casir_step w h (CWrite [1, 2, 3, 4] 4 10) of
           (ok1, w1, h1) \<Rightarrow>
             (case casir_step w1 h1 (CCommitWrite 2 20) of
                (ok2, w2, h2) \<Rightarrow>
                  ok1 \<and> ok2 \<and> casir_slot_len h2 1 = 2 \<and> casir_slot_len h2 0 = 2)))"
proof -
  let ?w = "fst (barq_started ''/sensor'' 1024 0)"
  let ?h = "snd (barq_started ''/sensor'' 1024 0)"
  let ?s1 = "barq_step ?w ?h (BWrite [1, 2, 3, 4] 4 10)"
  let ?s2 = "barq_step (fst (snd ?s1)) (snd (snd ?s1)) (BCommit 2 20)"
  let ?cw = "fst (casir_started ''/sensor'' 1024)"
  let ?ch = "snd (casir_started ''/sensor'' 1024)"
  let ?c1 = "casir_step ?cw ?ch (CWrite [1, 2, 3, 4] 4 10)"
  let ?c2 = "casir_step (fst (snd ?c1)) (snd (snd ?c1)) (CCommitWrite 2 20)"
  have e: "bq_front_idx ?h < 2" "?s1 = (True, fst (snd ?s1), snd (snd ?s1))"
    "?s2 = (True, fst (snd ?s2), snd (snd ?s2))"
    "bq_front_idx (snd (snd ?s1)) = 1" "bq_front_idx (snd (snd ?s2)) = 0"
    by (simp_all add: barq_eval)
  have ce: "cs_front_idx ?ch < 2" "?c1 = (True, fst (snd ?c1), snd (snd ?c1))"
    "?c2 = (True, fst (snd ?c2), snd (snd ?c2))"
    "cs_front_idx (snd (snd ?c1)) = 1" "cs_front_idx (snd (snd ?c2)) = 0"
    by (simp_all add: casir_eval)
  note inst = C6_slot_lengths [where h = ?h and w = ?w and ?x1.0 = "BWrite [1, 2, 3, 4] 4 10"
      and ?w1.0 = "fst (snd ?s1)" and ?h1.0 = "snd (snd ?s1)" and ?x2.0 = "BCommit 2 20"
      and ?w2.0 = "fst (snd ?s2)" and ?h2.0 = "snd (snd ?s2)"
      and ch = ?ch and cw = ?cw and ?y1.0 = "CWrite [1, 2, 3, 4] 4 10"
      and ?cw1.0 = "fst (snd ?c1)" and ?ch1.0 = "snd (snd ?c1)"
      and ?y2.0 = "CCommitWrite 2 20"
      and ?cw2.0 = "fst (snd ?c2)" and ?ch2.0 = "snd (snd ?c2)"]
  have b: "barq_slot_len (snd (snd ?s2)) 1 = 4 \<and> barq_slot_len (snd (snd ?s2)) 0 = 2"
    using inst e by simp
  have c: "casir_slot_len (snd (snd ?c2)) 1 = 2 \<and> casir_slot_len (snd (snd ?c2)) 0 = 2"
    using inst ce by simp
  have "fst ?s1" "fst ?s2" "fst ?c1" "fst ?c2"
    using e(2,3) ce(2,3) by (simp_all add: prod_eq_iff)
  then show ?thesis using b c by (simp add: case_prod_unfold)
qed

subsection \<open>C10: a published length above the reader's capacity\<close>





section \<open>Properties of the ring fan-out transport\<close>

subsection \<open>The loops over the reader table\<close>







lemma sahm_writer_init_True:
  assumes "sahm_writer_init (DirectWriter_ctor chan cap) env now W = (True, w, W')"
  shows "dw_is_initialized w" and "dw_max_slot_size w = cap"
    and "dw_readers w = replicate MAX_READERS invalid_reader"
    and "dw_header w = Some (shm_next W)"
    and "shm_objs W' (shm_next W) = Some (ControlObj (control_init cap now))"
    and "shm_names W' = (shm_names W)(chan \<mapsto> shm_next W)"
    and "shm_next W' = Suc (shm_next W)"
    and "\<forall>j. j \<noteq> shm_next W \<longrightarrow> shm_objs W' j = shm_objs W j"
  using assms
  by (auto simp: sahm_writer_init_def DirectWriter_ctor_def shm_unlink_def shm_open_creat_def
      Let_def split: if_splits option.splits prod.splits)


subsection \<open>The value \<open>write\<close> and \<open>commitSlots\<close> return\<close>






subsection \<open>One ring under successive publishes\<close>









subsection \<open>The channel with one registered reader\<close>





lemma control_init_claims_0:
  "claimed_entry (control_init cap now) = Some 0"
  by (simp add: claimed_entry_def control_init_def MAX_READERS_def numeral_eq_Suc)








lemmas sahm_eval = example_fanout_writer_def example_fanout_reader_def sahm_writer_init_def
  sahm_reader_init_def DirectWriter_ctor_def DirectReader_ctor_def env_all_ok_def
  reader_env_all_ok_def shm_empty_world_def shm_unlink_def shm_open_creat_def
  shm_open_existing_def Let_def control_init_def

lemma example_fanout_writer_ok:
  "example_fanout_writer = (True, fst (snd example_fanout_writer), snd (snd example_fanout_writer))"
  by (simp add: sahm_eval)



subsection \<open>C5: ring wrap\<close>




subsection \<open>C8: what the returned count tells\<close>



subsection \<open>C4: the order of the stores of a registration\<close>

lemma first_inactive_Some:
  "first_inactive k xs = Some i \<Longrightarrow> k \<le> i \<and> i < k + length xs \<and> \<not> xs ! (i - k)"
proof (induction xs arbitrary: k)
  case Nil
  then show ?case by simp
next
  case (Cons a as)
  show ?case
  proof (cases a)
    case False
    then show ?thesis using Cons.prems by simp
  next
    case True
    then have "first_inactive (Suc k) as = Some i" using Cons.prems by simp
    then have "Suc k \<le> i \<and> i < Suc k + length as \<and> \<not> as ! (i - Suc k)"
      by (rule Cons.IH)
    then show ?thesis by (auto simp: nth_Cons' Suc_diff_Suc)
  qed
qed

lemma claimed_entry_Some:
  assumes "claimed_entry hdr = Some i"
  shows "i < MAX_READERS" and "i < length (ch_reader_active hdr)"
    and "\<not> ch_reader_active hdr ! i"
  using first_inactive_Some [of 0 "take MAX_READERS (ch_reader_active hdr)" i] assms
  by (auto simp: claimed_entry_def)

lemma registration_trace_steps:
  assumes c: "claimed_entry hdr = Some i"
    and ln: "i < length (ch_reader_shm_names hdr)" and ls: "i < length (ch_reader_ring_sizes hdr)"
  shows "\<exists>s1 s2 s3 s4.
      registration_trace hdr nm rs = [s1, s2, s3, s4]
      \<and> register_reader hdr nm rs = Some (i, s4)
      \<and> ch_reader_active s1 ! i \<and> ch_reader_active s2 ! i
      \<and> ch_reader_active s3 ! i \<and> ch_reader_active s4 ! i
      \<and> ch_reader_shm_names s1 ! i = ch_reader_shm_names hdr ! i
      \<and> ch_reader_ring_sizes s1 ! i = ch_reader_ring_sizes hdr ! i
      \<and> ch_reader_shm_names s2 ! i = take (SHM_NAME_LEN - 1) nm
      \<and> ch_reader_ring_sizes s2 ! i = ch_reader_ring_sizes hdr ! i
      \<and> ch_reader_shm_names s3 ! i = take (SHM_NAME_LEN - 1) nm
      \<and> ch_reader_ring_sizes s3 ! i = rs
      \<and> ch_reader_shm_names s4 ! i = take (SHM_NAME_LEN - 1) nm
      \<and> ch_reader_ring_sizes s4 ! i = rs
      \<and> ch_num_readers s4 = ch_num_readers hdr + 1"
  using claimed_entry_Some [OF c] ln ls
  by (simp add: registration_trace_def register_reader_def register_steps_def c)

lemma discover_entry_empty_name:
  assumes "ch_reader_shm_names hdr ! i = []" and "\<not> ri_valid r"
  shows "discover_entry hdr names env cap i r = r"
  using assms by (simp add: discover_entry_def Let_def)


text \<open>
  C4 (as stated, refuted): no point of the registration would show an entry active with
  its name or ring size unset. On the control header a writer has just initialised, the
  first store of a reader's registration is the compare-exchange on \<open>reader_active[0]\<close>:
  after it entry 0 is active with an empty name and ring size 0, and after the second
  store it is active and named with ring size still 0.
\<close>

theorem C4_active_first_counterexample:
  "(case shm_at (snd (snd example_fanout_writer)) (dw_header (fst (snd example_fanout_writer))) of
      Some (ControlObj hdr) \<Rightarrow>
        (case registration_trace hdr ''/chan_reader_42'' 3 of
           s1 # s2 # rest \<Rightarrow>
             ch_reader_active s1 ! 0 \<and> ch_reader_shm_names s1 ! 0 = []
             \<and> ch_reader_ring_sizes s1 ! 0 = 0
             \<and> ch_reader_active s2 ! 0 \<and> ch_reader_shm_names s2 ! 0 = ''/chan_reader_42''
             \<and> ch_reader_ring_sizes s2 ! 0 = 0
         | _ \<Rightarrow> False)
    | _ \<Rightarrow> False)"
proof -
  have wi: "sahm_writer_init (DirectWriter_ctor ''/chan'' 1024) env_all_ok 0 shm_empty_world
      = (True, fst (snd example_fanout_writer), snd (snd example_fanout_writer))"
    using example_fanout_writer_ok by (simp add: example_fanout_writer_def)
  have h: "shm_at (snd (snd example_fanout_writer)) (dw_header (fst (snd example_fanout_writer)))
      = Some (ControlObj (control_init 1024 0))"
    using sahm_writer_init_True(4,5) [OF wi] by (simp add: shm_at_def)
  have t: "registration_trace (control_init 1024 0) ''/chan_reader_42'' 3
      = states_after (register_steps 0 ''/chan_reader_42'' 3) (control_init 1024 0)"
    by (simp add: registration_trace_def control_init_claims_0)
  show ?thesis
    unfolding h
    by (simp add: t register_steps_def)
       (simp add: control_init_def MAX_READERS_def SHM_NAME_LEN_def)
qed

text \<open>
  C4 (amended): a registration claims the first inactive directory entry \<open>i\<close> and makes
  four stores in this order: the active flag (the claiming compare-exchange), the name,
  the ring size, the reader count. The entry is active from the first store on; its
  name is written by the second store and its ring size by the third, so name and ring
  size are both set only from the third store on; the header \<open>DirectReader::init\<close>
  leaves is the last of these states. A writer that observes the entry after the first
  store, while its name is still empty, skips it: discovery leaves an invalid handle as
  it is.
\<close>

theorem C4_registration_order:
  assumes "claimed_entry hdr = Some i"
    and "length (ch_reader_shm_names hdr) = MAX_READERS"
    and "length (ch_reader_ring_sizes hdr) = MAX_READERS"
  shows "\<exists>s1 s2 s3 s4.
      registration_trace hdr nm rs = [s1, s2, s3, s4]
      \<and> register_reader hdr nm rs = Some (i, s4)
      \<and> \<not> ch_reader_active hdr ! i
      \<and> ch_reader_active s1 ! i \<and> ch_reader_active s2 ! i
      \<and> ch_reader_active s3 ! i \<and> ch_reader_active s4 ! i
      \<and> ch_reader_shm_names s1 ! i = ch_reader_shm_names hdr ! i
      \<and> ch_reader_ring_sizes s1 ! i = ch_reader_ring_sizes hdr ! i
      \<and> ch_reader_shm_names s2 ! i = take (SHM_NAME_LEN - 1) nm
      \<and> ch_reader_ring_sizes s2 ! i = ch_reader_ring_sizes hdr ! i
      \<and> ch_reader_shm_names s3 ! i = take (SHM_NAME_LEN - 1) nm
      \<and> ch_reader_ring_sizes s3 ! i = rs
      \<and> ch_reader_shm_names s4 ! i = take (SHM_NAME_LEN - 1) nm
      \<and> ch_reader_ring_sizes s4 ! i = rs
      \<and> (if ch_reader_shm_names hdr ! i = [] \<and> \<not> ri_valid r
          then discover_entry s1 names env cap i r = r else True)"
proof -
  note c = claimed_entry_Some [OF assms(1)]
  have ln: "i < length (ch_reader_shm_names hdr)" and ls: "i < length (ch_reader_ring_sizes hdr)"
    using c(1) assms(2,3) by simp_all
  obtain s1 s2 s3 s4 where t: "registration_trace hdr nm rs = [s1, s2, s3, s4]"
    and r: "register_reader hdr nm rs = Some (i, s4)"
    and a: "ch_reader_active s1 ! i" "ch_reader_active s2 ! i"
      "ch_reader_active s3 ! i" "ch_reader_active s4 ! i"
    and n1: "ch_reader_shm_names s1 ! i = ch_reader_shm_names hdr ! i"
    and z1: "ch_reader_ring_sizes s1 ! i = ch_reader_ring_sizes hdr ! i"
    and n2: "ch_reader_shm_names s2 ! i = take (SHM_NAME_LEN - 1) nm"
    and z2: "ch_reader_ring_sizes s2 ! i = ch_reader_ring_sizes hdr ! i"
    and n3: "ch_reader_shm_names s3 ! i = take (SHM_NAME_LEN - 1) nm"
    and z3: "ch_reader_ring_sizes s3 ! i = rs"
    and n4: "ch_reader_shm_names s4 ! i = take (SHM_NAME_LEN - 1) nm"
    and z4: "ch_reader_ring_sizes s4 ! i = rs"
    using registration_trace_steps [OF assms(1) ln ls, of nm rs] by blast
  have d: "discover_entry s1 names env cap i r = r"
    if "ch_reader_shm_names hdr ! i = [] \<and> \<not> ri_valid r"
    using that n1 discover_entry_empty_name [of s1 i r names env cap] by simp
  show ?thesis
    using t r c(3) a n1 z1 n2 z2 n3 z3 n4 z4 d by auto
qed

text \<open>
  Witness for C4: the registration of the example reader's ring name with ring size 3
  on the control header the example writer has just initialised.
\<close>

theorem C4_registration_order_witness:
  "\<exists>s1 s2 s3 s4.
      registration_trace (control_init 1024 0) ''/chan_reader_42'' 3 = [s1, s2, s3, s4]
      \<and> register_reader (control_init 1024 0) ''/chan_reader_42'' 3 = Some (0, s4)
      \<and> ch_reader_active s1 ! 0 \<and> ch_reader_shm_names s1 ! 0 = []
      \<and> ch_reader_ring_sizes s1 ! 0 = 0
      \<and> ch_reader_active s4 ! 0 \<and> ch_reader_shm_names s4 ! 0 = ''/chan_reader_42''
      \<and> ch_reader_ring_sizes s4 ! 0 = 3
      \<and> discover_entry s1 Map.empty discover_all_ok 1024 0 invalid_reader = invalid_reader"
proof -
  have l: "length (ch_reader_shm_names (control_init 1024 0)) = MAX_READERS"
    "length (ch_reader_ring_sizes (control_init 1024 0)) = MAX_READERS"
    by (simp_all add: control_init_def)
  have z: "ch_reader_shm_names (control_init 1024 0) ! 0 = []"
    "ch_reader_ring_sizes (control_init 1024 0) ! 0 = 0"
    "\<not> ri_valid invalid_reader"
    "take (SHM_NAME_LEN - 1) ''/chan_reader_42'' = ''/chan_reader_42''"
    by (simp_all add: control_init_def MAX_READERS_def invalid_reader_def SHM_NAME_LEN_def)
  show ?thesis
    using C4_registration_order [OF control_init_claims_0 l, of "''/chan_reader_42''" 3
        invalid_reader Map.empty discover_all_ok 1024] z
    by auto
qed

section \<open>Properties of writer initialisation\<close>








lemma casir_init_no_trap:
  assumes "\<not> use_huge_pages (cw_config w) \<or> hp_page_size (env_hp_first env) \<noteq> 0"
  shows "casir_init w env W \<noteq> None"
  using assms
  by (auto simp: casir_init_def shouldUseHugePages_def Let_def
      split: if_splits option.splits prod.splits)





subsection \<open>C9: initialising a name that is already bound\<close>




end
